theory Spec2Isabelle
  imports Complex_Main "HOL-Library.Char_ord"
begin

section \<open>Strings\<close>

text \<open>
  A JavaScript string is modelled as a \<^typ>\<open>string\<close>, one \<^typ>\<open>char\<close> per code unit,
  for the code units from U+0000 to U+00FF. The white space of that range is TAB, LF, VT,
  FF, CR, SPACE and the no-break space U+00A0. The order on characters is the order of
  their codes, which is how JavaScript compares one-character strings.
\<close>

definition isWhiteSpace :: "char \<Rightarrow> bool" where
  "isWhiteSpace c =
     (c \<in> set [CHR 0x09, CHR 0x0A, CHR 0x0B, CHR 0x0C, CHR 0x0D, CHR '' '', CHR 0xA0])"

text \<open>\<^verbatim>\<open>String.prototype.trim\<close>.\<close>

definition trim :: "string \<Rightarrow> string" where
  "trim s = rev (dropWhile isWhiteSpace (rev (dropWhile isWhiteSpace s)))"

text \<open>\<^verbatim>\<open>s.split(sep)\<close> for a separator of one character; the empty string gives one empty piece.\<close>

fun split :: "char \<Rightarrow> string \<Rightarrow> string list" where
  "split sep [] = [[]]"
| "split sep (c # cs) =
     (if c = sep then [] # split sep cs
      else (case split sep cs of [] \<Rightarrow> [[c]] | w # ws \<Rightarrow> (c # w) # ws))"

text \<open>
  The letters of the range that have a lower-case and an upper-case form in it: the
  letters of ASCII, then U+00E0 to U+00FE without the division sign, over U+00C0 to
  U+00DE without the multiplication sign.
\<close>

definition lowerLetters :: string where
  "lowerLetters =
     ''abcdefghijklmnopqrstuvwxyz''
     @ [CHR 0xE0, CHR 0xE1, CHR 0xE2, CHR 0xE3, CHR 0xE4, CHR 0xE5, CHR 0xE6,
       CHR 0xE7, CHR 0xE8, CHR 0xE9, CHR 0xEA, CHR 0xEB, CHR 0xEC, CHR 0xED,
       CHR 0xEE, CHR 0xEF, CHR 0xF0, CHR 0xF1, CHR 0xF2, CHR 0xF3, CHR 0xF4,
       CHR 0xF5, CHR 0xF6, CHR 0xF8, CHR 0xF9, CHR 0xFA, CHR 0xFB, CHR 0xFC,
       CHR 0xFD, CHR 0xFE]"

definition upperLetters :: string where
  "upperLetters =
     ''ABCDEFGHIJKLMNOPQRSTUVWXYZ''
     @ [CHR 0xC0, CHR 0xC1, CHR 0xC2, CHR 0xC3, CHR 0xC4, CHR 0xC5, CHR 0xC6,
       CHR 0xC7, CHR 0xC8, CHR 0xC9, CHR 0xCA, CHR 0xCB, CHR 0xCC, CHR 0xCD,
       CHR 0xCE, CHR 0xCF, CHR 0xD0, CHR 0xD1, CHR 0xD2, CHR 0xD3, CHR 0xD4,
       CHR 0xD5, CHR 0xD6, CHR 0xD8, CHR 0xD9, CHR 0xDA, CHR 0xDB, CHR 0xDC,
       CHR 0xDD, CHR 0xDE]"

text \<open>\<^verbatim>\<open>toLowerCase\<close> stays within the range.\<close>

definition toLowerChar :: "char \<Rightarrow> char" where
  "toLowerChar c = (case map_of (zip upperLetters lowerLetters) c of Some l \<Rightarrow> l | None \<Rightarrow> c)"

definition toLowerCase :: "string \<Rightarrow> string" where
  "toLowerCase s = map toLowerChar s"

text \<open>
  \<^verbatim>\<open>toUpperCase\<close> leaves the range on three characters: the sharp s U+00DF becomes
  \<open>SS\<close>, the micro sign U+00B5 becomes U+039C, and U+00FF becomes U+0178. An upper-cased
  string is a list of \<open>wchar\<close>, which has these code units and U+03BC, the lower-case
  form of U+039C, besides the characters of the range.
\<close>

datatype wchar = Latin char | U0178 | U039C | U03BC

type_synonym wstring = "wchar list"

abbreviation latin :: "string \<Rightarrow> wstring" where
  "latin s \<equiv> map Latin s"

definition toUpperChar :: "char \<Rightarrow> wstring" where
  "toUpperChar c =
     (if c = CHR 0xDF then [Latin CHR ''S'', Latin CHR ''S'']
      else if c = CHR 0xB5 then [U039C]
      else if c = CHR 0xFF then [U0178]
      else [Latin (case map_of (zip lowerLetters upperLetters) c of Some u \<Rightarrow> u | None \<Rightarrow> c)])"

definition toUpperCase :: "string \<Rightarrow> wstring" where
  "toUpperCase s = concat (map toUpperChar s)"

text \<open>\<^verbatim>\<open>toLowerCase\<close> on an upper-cased string.\<close>

definition toLowerWChar :: "wchar \<Rightarrow> wchar" where
  "toLowerWChar w =
     (case w of
        Latin c \<Rightarrow> Latin (toLowerChar c)
      | U0178 \<Rightarrow> Latin CHR 0xFF
      | U039C \<Rightarrow> U03BC
      | U03BC \<Rightarrow> U03BC)"

definition toLowerCaseW :: "wstring \<Rightarrow> wstring" where
  "toLowerCaseW s = map toLowerWChar s"

text \<open>The string of the range that an upper-cased string is, when it is one.\<close>

fun narrow :: "wstring \<Rightarrow> string option" where
  "narrow [] = Some []"
| "narrow (Latin c # ws) = map_option ((#) c) (narrow ws)"
| "narrow (_ # ws) = None"

text \<open>\<^verbatim>\<open>s.slice(b, e)\<close> for \<open>0 \<le> b \<le> e\<close>.\<close>

definition slice :: "nat \<Rightarrow> nat \<Rightarrow> string \<Rightarrow> string" where
  "slice b e s = take (e - b) (drop b s)"

text \<open>
  The value of a string of decimal digits, which is what \<^verbatim>\<open>Number\<close> returns on a
  non-empty string of digits (lemma \<open>Number_digits\<close> below).
\<close>

definition digitValue :: "char \<Rightarrow> nat" where
  "digitValue c = of_char c - 48"

definition decimal :: "string \<Rightarrow> nat" where
  "decimal s = foldl (\<lambda>a c. 10 * a + digitValue c) 0 s"

section \<open>Field validators\<close>

definition allowed :: string where
  "allowed = ''abcdefghijklmnopqrstuvwxyzABCDEFGHIJKLMNOPQRSTUVWXYZ0123456789-.@''"

text \<open>
  \<^verbatim>\<open>isValidAccountId(id)\<close>: the argument is a token or \<^verbatim>\<open>null\<close>; \<^verbatim>\<open>!id\<close> holds
  of \<^verbatim>\<open>null\<close> and of the empty string.
\<close>

definition isValidAccountId :: "string option \<Rightarrow> bool" where
  "isValidAccountId idv =
     (case idv of
        None \<Rightarrow> False
      | Some s \<Rightarrow> if s = [] then False else list_all (\<lambda>c. c \<in> set allowed) s)"

definition daysInMonth :: "nat list" where
  "daysInMonth = [0, 31, 28, 31, 30, 31, 30, 31, 31, 30, 31, 30, 31]"

definition isLeap :: "nat \<Rightarrow> bool" where
  "isLeap year = ((year mod 4 = 0 \<and> year mod 100 \<noteq> 0) \<or> year mod 400 = 0)"

text \<open>
  \<^verbatim>\<open>isValidDateYYYYMMDD(dateStr)\<close>. After the loop over \<^verbatim>\<open>combined\<close> the three
  pieces are strings of digits, so \<^verbatim>\<open>year\<close>, \<^verbatim>\<open>month\<close> and \<^verbatim>\<open>day\<close> are natural
  numbers, and \<^verbatim>\<open>daysInMonth[month]\<close> is read with \<open>1 \<le> month \<le> 12\<close> only.
\<close>

definition isValidDateYYYYMMDD :: "string \<Rightarrow> bool" where
  "isValidDateYYYYMMDD dateStr =
     (if dateStr = [] then False
      else if length dateStr \<noteq> 10 then False
      else if dateStr ! 4 \<noteq> CHR ''-'' \<or> dateStr ! 7 \<noteq> CHR ''-'' then False
      else
        let yearStr = slice 0 4 dateStr;
            monthStr = slice 5 7 dateStr;
            dayStr = slice 8 10 dateStr;
            combined = yearStr @ monthStr @ dayStr
        in if list_ex (\<lambda>c. c < CHR ''0'' \<or> c > CHR ''9'') combined then False
           else
             let year = decimal yearStr;
                 month = decimal monthStr;
                 day = decimal dayStr
             in if year < 1000 \<or> year > 9999 then False
                else if month < 1 \<or> month > 12 then False
                else if isLeap year \<and> month = 2
                     then (if day < 1 \<or> day > 29 then False else True)
                else if day < 1 \<or> day > daysInMonth ! month then False
                else True)"

section \<open>Numbers and values\<close>

text \<open>
  A JavaScript number is a double: \<open>NaN\<close>, \<open>+Infinity\<close>, \<open>-Infinity\<close>, or a finite
  value, modelled as the rational it denotes. Every finite result is rounded to the
  nearest double, ties to the even significand. The two zeros are one value: the program
  compares, subtracts and prints numbers, which does not tell the zeros apart.
\<close>

datatype jsnum = NaN | Fin rat | PosInf | NegInf

datatype jsval = JNum jsnum | JStr string

subsection \<open>Rounding to a double\<close>

text \<open>The floor of the logarithm of \<open>n \<ge> 1\<close> to the base \<open>b \<ge> 2\<close>.\<close>

function ilog :: "int \<Rightarrow> int \<Rightarrow> int" where
  "ilog b n = (if b < 2 \<or> n < b then 0 else 1 + ilog b (n div b))"
  by pat_completeness auto
termination
proof (relation "measure (\<lambda>(b, n). nat n)")
  show "wf (measure (\<lambda>(b, n). nat n))"
    by simp
next
  fix b n :: int
  assume "\<not> (b < 2 \<or> n < b)"
  then have b: "2 \<le> b" "b \<le> n"
    by simp_all
  then have "n div b < n"
    by (simp add: int_div_less_self)
  with b show "((b, n div b), (b, n)) \<in> measure (\<lambda>(b, n). nat n)"
    by simp
qed

declare ilog.simps [simp del]

definition ipow :: "int \<Rightarrow> int \<Rightarrow> rat" where
  "ipow b k = (if 0 \<le> k then of_int b ^ nat k else 1 / of_int b ^ nat (- k))"

text \<open>The floor of the logarithm of a positive rational.\<close>

definition flog :: "int \<Rightarrow> rat \<Rightarrow> int" where
  "flog b a =
     (let (n, d) = quotient_of a;
          k = ilog b n - ilog b d
      in if ipow b k \<le> a then k else k - 1)"

definition roundHalfEven :: "rat \<Rightarrow> int" where
  "roundHalfEven x =
     (let f = \<lfloor>x\<rfloor>; r = x - of_int f
      in if r < 1 / 2 then f else if 1 / 2 < r then f + 1 else if even f then f else f + 1)"

text \<open>
  The double nearest to a rational. An integer up to \<open>2 ^ 53\<close> in magnitude is a double.
  Any other value is rounded to a multiple of its unit in the last place, \<open>2 ^ e\<close>, where
  52 bits follow the leading one and \<open>e\<close> is at least -1074, and is infinite from
  \<open>2 ^ 1024\<close>.
\<close>

definition round64 :: "rat \<Rightarrow> jsnum" where
  "round64 q =
     (if of_int \<lfloor>q\<rfloor> = q \<and> \<bar>q\<bar> \<le> 2 ^ 53 then Fin q
      else
        let a = \<bar>q\<bar>;
            e = max (flog 2 a - 52) (- 1074);
            v = of_int (roundHalfEven (a / ipow 2 e)) * ipow 2 e
        in if ipow 2 1024 \<le> v then (if 0 < q then PosInf else NegInf)
           else Fin (if 0 < q then v else - v))"

subsection \<open>Arithmetic and comparison\<close>

fun num_neg :: "jsnum \<Rightarrow> jsnum" where
  "num_neg NaN = NaN"
| "num_neg (Fin a) = Fin (- a)"
| "num_neg PosInf = NegInf"
| "num_neg NegInf = PosInf"

fun num_add :: "jsnum \<Rightarrow> jsnum \<Rightarrow> jsnum" where
  "num_add NaN _ = NaN"
| "num_add _ NaN = NaN"
| "num_add (Fin a) (Fin b) = round64 (a + b)"
| "num_add PosInf NegInf = NaN"
| "num_add NegInf PosInf = NaN"
| "num_add PosInf _ = PosInf"
| "num_add NegInf _ = NegInf"
| "num_add (Fin a) b = b"

definition num_sub :: "jsnum \<Rightarrow> jsnum \<Rightarrow> jsnum" where
  "num_sub a b = num_add a (num_neg b)"

text \<open>\<open>a < b\<close> on numbers; every comparison with \<open>NaN\<close> is false.\<close>

fun num_lt :: "jsnum \<Rightarrow> jsnum \<Rightarrow> bool" where
  "num_lt NaN _ = False"
| "num_lt _ NaN = False"
| "num_lt (Fin a) (Fin b) = (a < b)"
| "num_lt NegInf NegInf = False"
| "num_lt NegInf _ = True"
| "num_lt _ NegInf = False"
| "num_lt PosInf _ = False"
| "num_lt (Fin a) PosInf = True"

text \<open>\<open>a <= b\<close> on numbers.\<close>

fun num_le :: "jsnum \<Rightarrow> jsnum \<Rightarrow> bool" where
  "num_le NaN _ = False"
| "num_le _ NaN = False"
| "num_le a b = (a = b \<or> num_lt a b)"

subsection \<open>Converting a string to a number\<close>

definition isDigit :: "char \<Rightarrow> bool" where
  "isDigit c = (CHR ''0'' \<le> c \<and> c \<le> CHR ''9'')"

definition isDigits :: "string \<Rightarrow> bool" where
  "isDigits s = (s \<noteq> [] \<and> list_all isDigit s)"

text \<open>The pieces of \<open>s\<close> before and after the first character that satisfies \<open>P\<close>.\<close>

definition splitAt :: "(char \<Rightarrow> bool) \<Rightarrow> string \<Rightarrow> string \<times> string option" where
  "splitAt P s =
     (takeWhile (\<lambda>c. \<not> P c) s,
      case dropWhile (\<lambda>c. \<not> P c) s of [] \<Rightarrow> None | _ # r \<Rightarrow> Some r)"

text \<open>Digits, digits with a fraction, or a fraction alone.\<close>

definition mantissa :: "string \<Rightarrow> rat option" where
  "mantissa s =
     (case splitAt (\<lambda>c. c = CHR ''.'') s of
        (ip, None) \<Rightarrow> if isDigits ip then Some (of_nat (decimal ip)) else None
      | (ip, Some fp) \<Rightarrow>
          if (ip = [] \<or> isDigits ip) \<and> (fp = [] \<or> isDigits fp) \<and> \<not> (ip = [] \<and> fp = [])
          then Some (of_nat (decimal ip) + of_nat (decimal fp) / 10 ^ length fp)
          else None)"

definition exponent :: "string \<Rightarrow> int option" where
  "exponent s =
     (case s of
        [] \<Rightarrow> None
      | c # r \<Rightarrow>
          if c = CHR ''+'' then (if isDigits r then Some (int (decimal r)) else None)
          else if c = CHR ''-'' then (if isDigits r then Some (- int (decimal r)) else None)
          else if isDigits s then Some (int (decimal s)) else None)"

definition scale10 :: "rat \<Rightarrow> int \<Rightarrow> rat" where
  "scale10 q k = (if 0 \<le> k then q * 10 ^ nat k else q / 10 ^ nat (- k))"

definition unsignedDecimal :: "string \<Rightarrow> jsnum" where
  "unsignedDecimal s =
     (if s = ''Infinity'' then PosInf
      else case splitAt (\<lambda>c. c = CHR ''e'' \<or> c = CHR ''E'') s of
        (m, None) \<Rightarrow> (case mantissa m of Some q \<Rightarrow> round64 q | None \<Rightarrow> NaN)
      | (m, Some e) \<Rightarrow>
          (case mantissa m of
             None \<Rightarrow> NaN
           | Some q \<Rightarrow>
               (case exponent e of None \<Rightarrow> NaN | Some k \<Rightarrow> round64 (scale10 q k))))"

definition signedDecimal :: "string \<Rightarrow> jsnum" where
  "signedDecimal s =
     (case s of
        [] \<Rightarrow> NaN
      | c # r \<Rightarrow>
          if c = CHR ''+'' then unsignedDecimal r
          else if c = CHR ''-'' then num_neg (unsignedDecimal r)
          else unsignedDecimal s)"

definition radixDigit :: "nat \<Rightarrow> char \<Rightarrow> nat option" where
  "radixDigit radix c =
     (case map_of (zip ''0123456789abcdefABCDEF''
                       [0, 1, 2, 3, 4, 5, 6, 7, 8, 9, 10, 11, 12, 13, 14, 15, 10, 11, 12, 13, 14, 15]) c of
        None \<Rightarrow> None
      | Some v \<Rightarrow> if v < radix then Some v else None)"

fun radixValue :: "nat \<Rightarrow> nat \<Rightarrow> string \<Rightarrow> nat option" where
  "radixValue radix acc [] = Some acc"
| "radixValue radix acc (c # cs) =
     (case radixDigit radix c of
        None \<Rightarrow> None
      | Some v \<Rightarrow> radixValue radix (radix * acc + v) cs)"

text \<open>\<^verbatim>\<open>0x\<close>, \<^verbatim>\<open>0o\<close> and \<^verbatim>\<open>0b\<close> literals, which take no sign.\<close>

definition nonDecimal :: "string \<Rightarrow> nat option" where
  "nonDecimal s =
     (case s of
        z # x # d # ds \<Rightarrow>
          if z \<noteq> CHR ''0'' then None
          else if x = CHR ''x'' \<or> x = CHR ''X'' then radixValue 16 0 (d # ds)
          else if x = CHR ''o'' \<or> x = CHR ''O'' then radixValue 8 0 (d # ds)
          else if x = CHR ''b'' \<or> x = CHR ''B'' then radixValue 2 0 (d # ds)
          else None
      | _ \<Rightarrow> None)"

text \<open>
  \<^verbatim>\<open>Number(str)\<close> on a string: the double nearest to the value that the string
  denotes.
\<close>

definition Number :: "string \<Rightarrow> jsnum" where
  "Number str =
     (let s = trim str
      in if s = [] then Fin 0
         else case nonDecimal s of Some n \<Rightarrow> round64 (of_nat n) | None \<Rightarrow> signedDecimal s)"

text \<open>\<^verbatim>\<open>Number.isNaN(v)\<close> does not convert its argument: a string is never \<open>NaN\<close>.\<close>

definition Number_isNaN :: "jsval \<Rightarrow> bool" where
  "Number_isNaN v = (case v of JNum NaN \<Rightarrow> True | _ \<Rightarrow> False)"

subsection \<open>Converting a number to a string\<close>

function intToString :: "int \<Rightarrow> string" where
  "intToString n =
     (if n < 10 then [''0123456789'' ! nat n]
      else intToString (n div 10) @ [''0123456789'' ! nat (n mod 10)])"
  by pat_completeness auto
termination
  by (relation "measure nat") (simp_all add: int_div_less_self)

declare intToString.simps [simp del]

text \<open>
  The digits of a positive double \<open>x\<close>: the least number \<open>k\<close> of digits, tried from \<open>k\<close>
  upwards, for which an integer \<open>s\<close> of \<open>k\<close> digits has \<open>s * 10 ^ (n - k)\<close> round to \<open>x\<close>,
  and among two such integers the nearer to \<open>x\<close>. The result is \<open>(n, k, s)\<close>; seventeen
  digits are enough for every double.
\<close>

fun digitsOf :: "nat \<Rightarrow> nat \<Rightarrow> rat \<Rightarrow> int \<Rightarrow> int \<times> nat \<times> int" where
  "digitsOf 0 k x n = (n, k, \<lfloor>x / ipow 10 (n - int k)\<rfloor>)"
| "digitsOf (Suc fuel) k x n =
     (let scale = ipow 10 (n - int k);
          lo = \<lfloor>x / scale\<rfloor>;
          hi = lo + 1;
          okLo = (round64 (of_int lo * scale) = Fin x \<and> 10 ^ (k - 1) \<le> lo);
          okHi = (round64 (of_int hi * scale) = Fin x);
          nearLo = (x - of_int lo * scale < of_int hi * scale - x
                    \<or> (x - of_int lo * scale = of_int hi * scale - x \<and> even lo));
          s = (if okLo \<and> (\<not> okHi \<or> nearLo) then lo else hi)
      in if okLo \<or> okHi
         then (if s = 10 ^ k then (n + 1, k, 10 ^ (k - 1)) else (n, k, s))
         else digitsOf fuel (Suc k) x n)"

text \<open>
  \<^verbatim>\<open>Number.prototype.toString\<close> on a positive double: positional notation while the
  decimal point falls within 21 digits before the digits or 6 zeros after it, and
  exponent notation beyond.
\<close>

definition positiveToString :: "rat \<Rightarrow> string" where
  "positiveToString x =
     (let (n, k, s) = digitsOf 17 1 x (flog 10 x + 1);
          ds = intToString s
      in if int k \<le> n \<and> n \<le> 21 then ds @ replicate (nat (n - int k)) CHR ''0''
         else if 0 < n \<and> n \<le> 21 then take (nat n) ds @ ''.'' @ drop (nat n) ds
         else if - 6 < n \<and> n \<le> 0 then ''0.'' @ replicate (nat (- n)) CHR ''0'' @ ds
         else
           (if k = 1 then ds else take 1 ds @ ''.'' @ drop 1 ds)
           @ ''e'' @ (if 0 \<le> n - 1 then ''+'' else ''-'') @ intToString \<bar>n - 1\<bar>)"

definition NumberToString :: "jsnum \<Rightarrow> string" where
  "NumberToString n =
     (case n of
        NaN \<Rightarrow> ''NaN''
      | PosInf \<Rightarrow> ''Infinity''
      | NegInf \<Rightarrow> ''-Infinity''
      | Fin q \<Rightarrow>
          if q = 0 then ''0''
          else if q < 0 then ''-'' @ positiveToString (- q)
          else positiveToString q)"

definition ToNumber :: "jsval \<Rightarrow> jsnum" where
  "ToNumber v = (case v of JNum n \<Rightarrow> n | JStr s \<Rightarrow> Number s)"

definition ToString :: "jsval \<Rightarrow> string" where
  "ToString v = (case v of JNum n \<Rightarrow> NumberToString n | JStr s \<Rightarrow> s)"

text \<open>\<open>a - b\<close> converts both operands to numbers.\<close>

definition js_sub :: "jsval \<Rightarrow> jsval \<Rightarrow> jsval" where
  "js_sub a b = JNum (num_sub (ToNumber a) (ToNumber b))"

text \<open>\<open>a + b\<close> adds two numbers and concatenates as soon as one operand is a string.\<close>

definition js_add :: "jsval \<Rightarrow> jsval \<Rightarrow> jsval" where
  "js_add a b =
     (case (a, b) of
        (JNum x, JNum y) \<Rightarrow> JNum (num_add x y)
      | _ \<Rightarrow> JStr (ToString a @ ToString b))"

text \<open>\<open>a < n\<close> where the right operand is a number: the left one is converted.\<close>

definition js_lt_num :: "jsval \<Rightarrow> jsnum \<Rightarrow> bool" where
  "js_lt_num a n = num_lt (ToNumber a) n"

section \<open>Objects and property lookup\<close>

text \<open>
  An object literal is an association list of its own properties. The \<^verbatim>\<open>in\<close> operator
  also finds the properties inherited from \<^verbatim>\<open>Object.prototype\<close>.
\<close>

definition ObjectPrototypeKeys :: "string list" where
  "ObjectPrototypeKeys =
     [''constructor'', ''__defineGetter__'', ''__defineSetter__'', ''hasOwnProperty'',
      ''__lookupGetter__'', ''__lookupSetter__'', ''isPrototypeOf'', ''propertyIsEnumerable'',
      ''toString'', ''valueOf'', ''__proto__'', ''toLocaleString'']"

definition js_in :: "string \<Rightarrow> (string \<times> 'v) list \<Rightarrow> bool" where
  "js_in k obj = (k \<in> set (map fst obj) \<or> k \<in> set ObjectPrototypeKeys)"

text \<open>A key outside the range names no property of the objects of this program.\<close>

definition js_in_w :: "wstring \<Rightarrow> (string \<times> 'v) list \<Rightarrow> bool" where
  "js_in_w k obj = (case narrow k of None \<Rightarrow> False | Some s \<Rightarrow> js_in s obj)"

definition SUPPORTED_TYPE :: "(string \<times> string) list" where
  "SUPPORTED_TYPE = [(''credit'', ''CREDIT''), (''debit'', ''DEBIT'')]"

definition SUPPORTED_CURRENCIES :: "(string \<times> string) list" where
  "SUPPORTED_CURRENCIES = [(''usd'', ''USD''), (''ngn'', ''NGN''), (''gbp'', ''GBP''), (''ghs'', ''GHS'')]"

text \<open>\<^verbatim>\<open>obj.key\<close> for an own property \<open>key\<close> of \<open>obj\<close>.\<close>

definition the_value :: "(string \<times> string) list \<Rightarrow> string \<Rightarrow> string" where
  "the_value obj k = (case map_of obj k of Some v \<Rightarrow> v | None \<Rightarrow> [])"

datatype field = Type | Amount | Currency | DebitAccount | CreditAccount | ExecuteBy

text \<open>The \<^verbatim>\<open>fields\<close> table of each instruction type, in the order of its entries.\<close>

definition PARSER_CONFIG :: "(string \<times> (field \<times> nat) list) list" where
  "PARSER_CONFIG =
     [(''credit'', [(Type, 0), (Amount, 1), (Currency, 2),
                   (CreditAccount, 5), (DebitAccount, 10), (ExecuteBy, 12)]),
      (''debit'', [(Type, 0), (Amount, 1), (Currency, 2),
                  (DebitAccount, 5), (CreditAccount, 10), (ExecuteBy, 12)])]"

section \<open>Parsing an instruction\<close>

datatype error = TypeError

record parsed =
  p_type :: "string option"
  p_amount :: "string option"
  p_currency :: "wstring option"
  p_debit_account :: "string option"
  p_credit_account :: "string option"
  p_execute_by :: "string option"

text \<open>A string or \<^verbatim>\<open>null\<close> used as a condition: \<^verbatim>\<open>null\<close> and the empty string are false.\<close>

definition truthy :: "'a list option \<Rightarrow> bool" where
  "truthy v = (case v of None \<Rightarrow> False | Some s \<Rightarrow> s \<noteq> [])"

text \<open>\<^verbatim>\<open>words[index] ?? null\<close>.\<close>

definition word_at :: "string list \<Rightarrow> nat \<Rightarrow> string option" where
  "word_at ws i = (if i < length ws then Some (ws ! i) else None)"

definition tokens :: "string \<Rightarrow> string list" where
  "tokens instruction = filter (\<lambda>w. w \<noteq> []) (map trim (split CHR '' '' instruction))"

text \<open>\<^verbatim>\<open>info[key] = value\<close>.\<close>

fun set_field :: "field \<Rightarrow> string option \<Rightarrow> parsed \<Rightarrow> parsed" where
  "set_field Type v info = info\<lparr>p_type := v\<rparr>"
| "set_field Amount v info = info\<lparr>p_amount := v\<rparr>"
| "set_field Currency v info = info\<lparr>p_currency := map_option latin v\<rparr>"
| "set_field DebitAccount v info = info\<lparr>p_debit_account := v\<rparr>"
| "set_field CreditAccount v info = info\<lparr>p_credit_account := v\<rparr>"
| "set_field ExecuteBy v info = info\<lparr>p_execute_by := v\<rparr>"

definition empty_info :: parsed where
  "empty_info =
     \<lparr>p_type = None, p_amount = None, p_currency = None,
      p_debit_account = None, p_credit_account = None, p_execute_by = None\<rparr>"

text \<open>The body of the \<^verbatim>\<open>forEach\<close> over the entries of \<^verbatim>\<open>config.fields\<close>.\<close>

definition read_field :: "string list \<Rightarrow> field \<times> nat \<Rightarrow> parsed \<Rightarrow> parsed" where
  "read_field ws entry info =
     (let key = fst entry;
          v = word_at ws (snd entry)
      in if key = Currency \<and> truthy v then info\<lparr>p_currency := map_option toUpperCase v\<rparr>
         else set_field key v info)"

text \<open>
  \<^verbatim>\<open>parseInstructionData(instruction)\<close>. When \<^verbatim>\<open>first\<close> names a property that
  \<^verbatim>\<open>SUPPORTED_TYPE\<close> only inherits, \<^verbatim>\<open>PARSER_CONFIG[first]\<close> is an inherited object
  without \<^verbatim>\<open>fields\<close>, and \<^verbatim>\<open>Object.entries(undefined)\<close> throws a \<^verbatim>\<open>TypeError\<close>.
\<close>

definition parseInstructionData :: "string \<Rightarrow> error + parsed" where
  "parseInstructionData instruction =
     (let ws = tokens instruction;
          first = map_option toLowerCase (word_at ws 0)
      in case first of
           None \<Rightarrow> Inr empty_info
         | Some f \<Rightarrow>
             if f \<noteq> [] \<and> js_in f SUPPORTED_TYPE
             then (case map_of PARSER_CONFIG f of
                     None \<Rightarrow> Inl TypeError
                   | Some config \<Rightarrow> Inr (fold (read_field ws) config empty_info))
             else Inr empty_info)"

section \<open>The validation chain\<close>

record account =
  acc_id :: string
  acc_balance :: jsval
  acc_currency :: string

text \<open>
  The texts of the message catalogue are kept outside this module; a message is
  identified by its key in \<^verbatim>\<open>PaymentMessages\<close>.
\<close>

datatype message =
    FAILED_GENERIC | MALFORMED_INSTRUCTION | INVALID_AMOUNT | UNSUPPORTED_CURRENCY
  | INVALID_ACCOUNT_ID | ACCOUNT_NOT_FOUND | SAME_ACCOUNT_ERROR | CURRENCY_MISMATCH
  | MISSING_KEYWORD | INSUFFICIENT_FUNDS | INVALID_DATE_FORMAT
  | TRANSACTION_PENDING | TRANSACTION_SUCCESSFUL

text \<open>
  \<^verbatim>\<open>validateParsedFields(parsed, accountsMap)\<close>. The second argument is
  \<^verbatim>\<open>accountsMap.get\<close>, from an identifier or \<^verbatim>\<open>null\<close> to the account it finds.
\<close>

definition validateParsedFields ::
  "parsed \<Rightarrow> (string option \<Rightarrow> account option) \<Rightarrow> (string \<times> message) option" where
  "validateParsedFields parsed accountsMap_get =
     (if p_type parsed = None then Some (''PR01'', MALFORMED_INSTRUCTION)
      else case p_amount parsed of
        None \<Rightarrow> Some (''AM01'', INVALID_AMOUNT)
      | Some amountStr \<Rightarrow>
        if amountStr = [] \<or> Number_isNaN (JStr amountStr) then Some (''AM01'', INVALID_AMOUNT)
        else if CHR ''.'' \<in> set amountStr then Some (''AM01'', INVALID_AMOUNT)
        else
          let amount = Number amountStr
          in if num_le amount (Fin 0) then Some (''AM01'', INVALID_AMOUNT)
          else if \<not> truthy (p_currency parsed)
                  \<or> \<not> js_in_w (toLowerCaseW (case p_currency parsed of None \<Rightarrow> [] | Some c \<Rightarrow> c))
                             SUPPORTED_CURRENCIES
               then Some (''CU02'', UNSUPPORTED_CURRENCY)
          else if \<not> isValidAccountId (p_debit_account parsed)
                  \<and> \<not> isValidAccountId (p_credit_account parsed)
               then Some (''AC04'', INVALID_ACCOUNT_ID)
          else case accountsMap_get (p_debit_account parsed) of
            None \<Rightarrow> Some (''AC03'', ACCOUNT_NOT_FOUND)
          | Some debit \<Rightarrow>
            (case accountsMap_get (p_credit_account parsed) of
               None \<Rightarrow> Some (''AC03'', ACCOUNT_NOT_FOUND)
             | Some credit \<Rightarrow>
               if p_debit_account parsed = p_credit_account parsed
               then Some (''AC02'', SAME_ACCOUNT_ERROR)
               else if toUpperCase (acc_currency debit) \<noteq> toUpperCase (acc_currency credit)
               then Some (''CU01'', CURRENCY_MISMATCH)
               else
                 let typeNormalized = map_option toLowerCase (p_type parsed);
                     isCredit = (typeNormalized = Some ''credit'');
                     isDebit = (typeNormalized = Some ''debit'')
                 in if \<not> isCredit \<and> \<not> isDebit then Some (''SY03'', MISSING_KEYWORD)
                 else if p_type parsed = Some (the_value SUPPORTED_TYPE ''debit'')
                         \<and> js_lt_num (acc_balance debit) amount
                 then Some (''AC01'', INSUFFICIENT_FUNDS)
                 else if truthy (p_execute_by parsed)
                         \<and> \<not> isValidDateYYYYMMDD (case p_execute_by parsed of None \<Rightarrow> [] | Some d \<Rightarrow> d)
                 then Some (''DT01'', INVALID_DATE_FORMAT)
                 else None))"

section \<open>Calendar dates as time values\<close>

text \<open>
  \<^verbatim>\<open>Date.UTC(year, month, date)\<close> on integers, after the ECMAScript definition: the
  number of the day, times the milliseconds of a day. It is used on dates whose time
  value is in the range of \<^verbatim>\<open>Date\<close>, where \<^verbatim>\<open>TimeClip\<close> changes nothing.
\<close>

definition DayFromYear :: "int \<Rightarrow> int" where
  "DayFromYear y =
     365 * (y - 1970) + (y - 1969) div 4 - (y - 1901) div 100 + (y - 1601) div 400"

definition InLeapYear :: "int \<Rightarrow> bool" where
  "InLeapYear y = (if y mod 4 \<noteq> 0 then False else if y mod 100 \<noteq> 0 then True
                   else if y mod 400 \<noteq> 0 then False else True)"

text \<open>The days of the year before month \<open>m\<close>, counted from 0.\<close>

definition DaysBeforeMonth :: "bool \<Rightarrow> int \<Rightarrow> int" where
  "DaysBeforeMonth leap m =
     (if m = 0 then 0
      else if m = 1 then 31
      else (if leap then 1 else 0)
           + (if m = 2 then 59 else if m = 3 then 90 else if m = 4 then 120
              else if m = 5 then 151 else if m = 6 then 181 else if m = 7 then 212
              else if m = 8 then 243 else if m = 9 then 273 else if m = 10 then 304
              else 334))"

definition MakeDay :: "int \<Rightarrow> int \<Rightarrow> int \<Rightarrow> int" where
  "MakeDay year month date =
     (let ym = year + month div 12;
          mn = month mod 12
      in DayFromYear ym + DaysBeforeMonth (InLeapYear ym) mn + date - 1)"

definition msPerDay :: int where
  "msPerDay = 86400000"

definition Date_UTC :: "int \<Rightarrow> int \<Rightarrow> int \<Rightarrow> int" where
  "Date_UTC year month date =
     (let yr = (if 0 \<le> year \<and> year \<le> 99 then 1900 + year else year)
      in MakeDay yr month date * msPerDay)"

text \<open>The clock: what \<^verbatim>\<open>new Date()\<close> answers to the three UTC getters.\<close>

record clock =
  getUTCFullYear :: int
  getUTCMonth :: int
  getUTCDate :: int

section \<open>Evaluating an instruction\<close>

record serviceData =
  sd_accounts :: "account list"
  sd_instruction :: string

datatype status = successful | pending | failed

record final_account =
  fa_id :: string
  fa_balance :: jsval
  fa_balance_before :: jsval
  fa_currency :: wstring

record response =
  r_type :: "string option"
  r_amount :: "jsnum option"
  r_currency :: "wstring option"
  r_debit_account :: "string option"
  r_credit_account :: "string option"
  r_execute_by :: "string option"
  r_status :: status
  r_status_reason :: message
  r_status_code :: string
  r_accounts :: "final_account list"

text \<open>
  The accounts are objects in the array \<^verbatim>\<open>accounts\<close>; a reference to one is its index.
  \<^verbatim>\<open>accounts.forEach((a) => accountsMap.set(a.id, a))\<close> leaves each identifier bound to
  the last account that carries it.
\<close>

fun setAll :: "account list \<Rightarrow> nat \<Rightarrow> (string \<rightharpoonup> nat) \<Rightarrow> (string \<rightharpoonup> nat)" where
  "setAll [] i m = m"
| "setAll (a # as) i m = setAll as (Suc i) (m(acc_id a \<mapsto> i))"

text \<open>\<^verbatim>\<open>accountsMap.get(key)\<close> as a reference; no account has the key \<^verbatim>\<open>null\<close>.\<close>

definition get_ref :: "(string \<rightharpoonup> nat) \<Rightarrow> string option \<Rightarrow> nat option" where
  "get_ref m key = (case key of None \<Rightarrow> None | Some k \<Rightarrow> m k)"

definition deref :: "account list \<Rightarrow> nat option \<Rightarrow> account option" where
  "deref accounts r =
     (case r of None \<Rightarrow> None
      | Some i \<Rightarrow> if i < length accounts then Some (accounts ! i) else None)"

text \<open>\<^verbatim>\<open>obj.balance -= amount\<close> and \<^verbatim>\<open>obj.balance += amount\<close> on the object at index \<open>i\<close>.\<close>

definition sub_assign :: "nat \<Rightarrow> jsval \<Rightarrow> account list \<Rightarrow> account list" where
  "sub_assign i v accounts =
     accounts[i := (accounts ! i)\<lparr>acc_balance := js_sub (acc_balance (accounts ! i)) v\<rparr>]"

definition add_assign :: "nat \<Rightarrow> jsval \<Rightarrow> account list \<Rightarrow> account list" where
  "add_assign i v accounts =
     accounts[i := (accounts ! i)\<lparr>acc_balance := js_add (acc_balance (accounts ! i)) v\<rparr>]"

definition initial_response :: response where
  "initial_response =
     \<lparr>r_type = None, r_amount = None, r_currency = None, r_debit_account = None,
      r_credit_account = None, r_execute_by = None, r_status = failed,
      r_status_reason = FAILED_GENERIC, r_status_code = ''PR01'', r_accounts = []\<rparr>"

text \<open>
  The decision between immediate and deferred execution. \<^verbatim>\<open>execute_by\<close> has passed
  \<^verbatim>\<open>isValidDateYYYYMMDD\<close> here, so its three pieces are strings of digits.
\<close>

definition executeStatus :: "string option \<Rightarrow> clock \<Rightarrow> status \<times> string" where
  "executeStatus execute_by now =
     (if truthy execute_by
      then
        let yyyyMMdd = (case execute_by of None \<Rightarrow> [] | Some d \<Rightarrow> d);
            execUTC = Date_UTC (int (decimal (slice 0 4 yyyyMMdd)))
                               (int (decimal (slice 5 7 yyyyMMdd)) - 1)
                               (int (decimal (slice 8 10 yyyyMMdd)));
            todayUTC = Date_UTC (getUTCFullYear now) (getUTCMonth now) (getUTCDate now)
        in if execUTC > todayUTC then (pending, ''AP02'') else (successful, ''AP00'')
      else (successful, ''AP00''))"

text \<open>
  \<^verbatim>\<open>parseInstruction(serviceData)\<close>, on data that has the shape the schema asks for,
  with the clock as a second argument. The result is the response together with the
  array of accounts as the call leaves it, or the exception thrown.
\<close>

definition parseInstruction :: "serviceData \<Rightarrow> clock \<Rightarrow> error + (response \<times> account list)" where
  "parseInstruction data now =
     (let instruction = trim (sd_instruction data);
          accounts = sd_accounts data;
          accountsMap = setAll accounts 0 Map.empty
      in case parseInstructionData instruction of
           Inl e \<Rightarrow> Inl e
         | Inr parsed \<Rightarrow>
           if \<not> truthy (p_type parsed)
           then Inr (initial_response\<lparr>r_status := failed,
                                       r_status_reason := MALFORMED_INSTRUCTION,
                                       r_status_code := ''SY03''\<rparr>, accounts)
           else
             (case validateParsedFields parsed (\<lambda>k. deref accounts (get_ref accountsMap k)) of
                Some validationError \<Rightarrow>
                  Inr (initial_response\<lparr>r_status := failed,
                                         r_status_reason := snd validationError,
                                         r_status_code := fst validationError\<rparr>, accounts)
              | None \<Rightarrow>
                (case (get_ref accountsMap (p_debit_account parsed),
                       get_ref accountsMap (p_credit_account parsed)) of
                   (Some debit, Some credit) \<Rightarrow>
                     let debitBefore = acc_balance (accounts ! debit);
                         creditBefore = acc_balance (accounts ! credit);
                         (executeStatus, code) = executeStatus (p_execute_by parsed) now;
                         amountStr = JStr (case p_amount parsed of None \<Rightarrow> [] | Some a \<Rightarrow> a);
                         accounts' =
                           (if executeStatus = successful
                            then if p_type parsed = Some (the_value SUPPORTED_TYPE ''debit'')
                                 then add_assign credit amountStr (sub_assign debit amountStr accounts)
                                 else sub_assign debit amountStr (add_assign credit amountStr accounts)
                            else accounts);
                         finalAccounts =
                           map (\<lambda>acc.
                                  \<lparr>fa_id = acc_id acc,
                                   fa_balance = acc_balance acc,
                                   fa_balance_before =
                                     (if Some (acc_id acc) = p_debit_account parsed
                                      then debitBefore else creditBefore),
                                   fa_currency = toUpperCase (acc_currency acc)\<rparr>)
                               (filter (\<lambda>acc. Some (acc_id acc) = p_debit_account parsed
                                              \<or> Some (acc_id acc) = p_credit_account parsed)
                                       accounts')
                     in Inr (initial_response
                               \<lparr>r_type := p_type parsed,
                                r_amount := (if truthy (p_amount parsed)
                                             then map_option Number (p_amount parsed) else None),
                                r_currency := p_currency parsed,
                                r_debit_account := p_debit_account parsed,
                                r_credit_account := p_credit_account parsed,
                                r_execute_by := p_execute_by parsed,
                                r_status := executeStatus,
                                r_status_code := code,
                                r_status_reason :=
                                  (if executeStatus = pending then TRANSACTION_PENDING
                                   else TRANSACTION_SUCCESSFUL),
                                r_accounts := finalAccounts\<rparr>, accounts')
                 | _ \<Rightarrow> Inl TypeError)))"

section \<open>The calendar, as the specification words it\<close>

text \<open>
  A date is ten characters \<open>YYYY-MM-DD\<close>: dashes at positions 4 and 7, digits
  elsewhere, a year from 1000 to 9999, a month from 1 to 12 and a day of that month,
  where February has 29 days in the years divisible by 4 and not by 100, or by 400.
\<close>

definition spec_digit :: "char \<Rightarrow> bool" where
  "spec_digit c = (c \<in> set ''0123456789'')"

definition spec_digit_value :: "char \<Rightarrow> nat" where
  "spec_digit_value c = length (takeWhile (\<lambda>d. d \<noteq> c) ''0123456789'')"

definition spec_leap_year :: "nat \<Rightarrow> bool" where
  "spec_leap_year y = ((4 dvd y \<and> \<not> 100 dvd y) \<or> 400 dvd y)"

definition spec_month_length :: "nat \<Rightarrow> nat \<Rightarrow> nat" where
  "spec_month_length y m =
     (if m = 2 then (if spec_leap_year y then 29 else 28)
      else if m \<in> {4, 6, 9, 11} then 30 else 31)"

definition spec_valid_date :: "string \<Rightarrow> bool" where
  "spec_valid_date s =
     (length s = 10 \<and> s ! 4 = CHR ''-'' \<and> s ! 7 = CHR ''-''
      \<and> list_all (\<lambda>i. spec_digit (s ! i)) [0, 1, 2, 3, 5, 6, 8, 9]
      \<and> (let y = 1000 * spec_digit_value (s ! 0) + 100 * spec_digit_value (s ! 1)
                  + 10 * spec_digit_value (s ! 2) + spec_digit_value (s ! 3);
              m = 10 * spec_digit_value (s ! 5) + spec_digit_value (s ! 6);
              d = 10 * spec_digit_value (s ! 8) + spec_digit_value (s ! 9)
          in 1000 \<le> y \<and> y \<le> 9999 \<and> 1 \<le> m \<and> m \<le> 12
             \<and> 1 \<le> d \<and> d \<le> spec_month_length y m))"


section \<open>Example data\<close>

definition example_accounts :: "account list" where
  "example_accounts =
     [\<lparr>acc_id = ''ACC1'', acc_balance = JNum (Fin 1000), acc_currency = ''USD''\<rparr>,
      \<lparr>acc_id = ''ACC2'', acc_balance = JNum (Fin 0), acc_currency = ''USD''\<rparr>]"

definition funded_accounts :: "account list" where
  "funded_accounts =
     [\<lparr>acc_id = ''ACC1'', acc_balance = JNum (Fin 1000), acc_currency = ''USD''\<rparr>,
      \<lparr>acc_id = ''ACC2'', acc_balance = JNum (Fin 250), acc_currency = ''USD''\<rparr>]"

definition example_data :: "string \<Rightarrow> serviceData" where
  "example_data instruction = \<lparr>sd_accounts = example_accounts, sd_instruction = instruction\<rparr>"

text \<open>A clock that reads 15 January 2025.\<close>

definition example_clock :: clock where
  "example_clock = \<lparr>getUTCFullYear = 2025, getUTCMonth = 0, getUTCDate = 15\<rparr>"

section \<open>Calendar dates in order\<close>

text \<open>
  A calendar date is a year, a month from 1 and a day; one date is later than another
  in the order of the calendar. The date of a string \<open>YYYY-MM-DD\<close> is read digit by
  digit, and the current date is what the clock shows.
\<close>

definition later :: "int \<times> int \<times> int \<Rightarrow> int \<times> int \<times> int \<Rightarrow> bool" where
  "later a b =
     (case a of (y, m, d) \<Rightarrow> case b of (y', m', d') \<Rightarrow>
        y' < y \<or> (y' = y \<and> (m' < m \<or> (m' = m \<and> d' < d))))"

definition spec_date_of :: "string \<Rightarrow> int \<times> int \<times> int" where
  "spec_date_of s =
     (int (1000 * spec_digit_value (s ! 0) + 100 * spec_digit_value (s ! 1)
           + 10 * spec_digit_value (s ! 2) + spec_digit_value (s ! 3)),
      int (10 * spec_digit_value (s ! 5) + spec_digit_value (s ! 6)),
      int (10 * spec_digit_value (s ! 8) + spec_digit_value (s ! 9)))"

definition current_date :: "clock \<Rightarrow> int \<times> int \<times> int" where
  "current_date now = (getUTCFullYear now, getUTCMonth now + 1, getUTCDate now)"

text \<open>
  What the getters of a \<^verbatim>\<open>Date\<close> can show: a day of the calendar, in a year that
  \<^verbatim>\<open>Date.UTC\<close> takes as it is (it reads the years 0 to 99 as 1900 to 1999).
\<close>

definition valid_clock :: "clock \<Rightarrow> bool" where
  "valid_clock now =
     (100 \<le> getUTCFullYear now \<and> getUTCFullYear now \<le> 275759
      \<and> 0 \<le> getUTCMonth now \<and> getUTCMonth now \<le> 11
      \<and> 1 \<le> getUTCDate now
      \<and> getUTCDate now
          \<le> int (spec_month_length (nat (getUTCFullYear now)) (nat (getUTCMonth now + 1))))"

section \<open>Passing validation\<close>


section \<open>Unsupported type keywords\<close>

definition first_token :: "string \<Rightarrow> string option" where
  "first_token instruction = word_at (tokens (trim instruction)) 0"

text \<open>
  The instruction has no first token, or its first token in lower case is neither
  \<open>credit\<close> nor \<open>debit\<close>, nor the name of a property that every object inherits.
\<close>

definition unsupported_type_keyword :: "string \<Rightarrow> bool" where
  "unsupported_type_keyword instruction =
     (case first_token instruction of
        None \<Rightarrow> True
      | Some w \<Rightarrow> toLowerCase w \<notin> set [''credit'', ''debit'']
                  \<and> toLowerCase w \<notin> set ObjectPrototypeKeys)"

section \<open>The date validator\<close>

lemma digit_char_iff: "(CHR ''0'' \<le> c \<and> c \<le> CHR ''9'') = (c \<in> set ''0123456789'')"
proof
  assume "CHR ''0'' \<le> c \<and> c \<le> CHR ''9''"
  then have "48 \<le> (of_char c :: nat) \<and> (of_char c :: nat) \<le> 57"
    by (simp add: less_eq_char_def)
  then have "(of_char c :: nat) \<in> {48, 49, 50, 51, 52, 53, 54, 55, 56, 57}"
    unfolding insert_iff empty_iff by presburger
  then have "(of_char c :: nat) \<in> of_char ` set ''0123456789''"
    by simp
  then show "c \<in> set ''0123456789''"
    using inj_of_char [where ?'a = nat] by (simp only: inj_image_mem_iff)
next
  assume "c \<in> set ''0123456789''"
  then have "(of_char c :: nat) \<in> of_char ` set ''0123456789''"
    by (rule imageI)
  then have "48 \<le> (of_char c :: nat) \<and> (of_char c :: nat) \<le> 57"
    by auto
  then show "CHR ''0'' \<le> c \<and> c \<le> CHR ''9''"
    by (simp add: less_eq_char_def)
qed

lemma digitValue_spec: "c \<in> set ''0123456789'' \<Longrightarrow> digitValue c = spec_digit_value c"
  apply (simp only: list.set insert_iff empty_iff)
  apply (elim disjE)
  apply (simp_all add: digitValue_def spec_digit_value_def)
  done
lemma length10:
  assumes "length s = 10"
  obtains c0 c1 c2 c3 c4 c5 c6 c7 c8 c9 where "s = [c0, c1, c2, c3, c4, c5, c6, c7, c8, c9]"
proof -
  from assms have "s = map (\<lambda>i. s ! i) [0..<10]"
    by (metis map_nth)
  then have "s = [s!0, s!1, s!2, s!3, s!4, s!5, s!6, s!7, s!8, s!9]"
    by (simp add: upt_rec numeral_eq_Suc)
  then show ?thesis using that by blast
qed


lemma not_digit_char: "(c < CHR ''0'' \<or> CHR ''9'' < c) = (\<not> spec_digit c)"
  using digit_char_iff [of c] by (auto simp: spec_digit_def not_le)

lemma isLeap_spec: "isLeap y = spec_leap_year y"
  by (simp add: isLeap_def spec_leap_year_def dvd_eq_mod_eq_0)

lemma month_cases:
  "1 \<le> m \<Longrightarrow> m \<le> (12::nat) \<Longrightarrow>
   m = 1 \<or> m = 2 \<or> m = 3 \<or> m = 4 \<or> m = 5 \<or> m = 6 \<or> m = 7 \<or> m = 8 \<or> m = 9 \<or> m = 10 \<or> m = 11 \<or> m = 12"
  by presburger

lemma daysInMonth_spec:
  "1 \<le> m \<Longrightarrow> m \<le> (12::nat) \<Longrightarrow>
   (if isLeap y \<and> m = 2 then 29 else daysInMonth ! m) = spec_month_length y m"
  apply (drule (1) month_cases)
  apply (elim disjE)
  apply (simp_all add: daysInMonth_def spec_month_length_def isLeap_spec)
  done

lemma date_numbers_spec:
  "(if year < 1000 \<or> year > 9999 then False
    else if month < 1 \<or> month > 12 then False
    else if isLeap year \<and> month = 2 then (if day < 1 \<or> day > 29 then False else True)
    else if day < 1 \<or> day > daysInMonth ! month then False
    else True)
   = (1000 \<le> year \<and> year \<le> 9999 \<and> 1 \<le> month \<and> month \<le> (12::nat)
      \<and> 1 \<le> day \<and> day \<le> spec_month_length year month)"
proof (cases "1 \<le> month \<and> month \<le> 12")
  case True
  then have "(if isLeap year \<and> month = 2 then 29 else daysInMonth ! month) = spec_month_length year month"
    by (simp add: daysInMonth_spec)
  with True show ?thesis
    by (auto split: if_splits)
next
  case False
  then show ?thesis by auto
qed

lemma valid_date_10:
  "isValidDateYYYYMMDD [c0, c1, c2, c3, c4, c5, c6, c7, c8, c9]
   = spec_valid_date [c0, c1, c2, c3, c4, c5, c6, c7, c8, c9]"
proof (cases "list_all spec_digit [c0, c1, c2, c3, c5, c6, c8, c9]")
  case False
  then show ?thesis
    by (auto simp: isValidDateYYYYMMDD_def spec_valid_date_def slice_def Let_def not_digit_char)
next
  case True
  then have dv: "digitValue c0 = spec_digit_value c0" "digitValue c1 = spec_digit_value c1"
    "digitValue c2 = spec_digit_value c2" "digitValue c3 = spec_digit_value c3"
    "digitValue c5 = spec_digit_value c5" "digitValue c6 = spec_digit_value c6"
    "digitValue c8 = spec_digit_value c8" "digitValue c9 = spec_digit_value c9"
    by (simp_all add: spec_digit_def digitValue_spec)
  have y: "decimal [c0, c1, c2, c3]
           = 1000 * spec_digit_value c0 + 100 * spec_digit_value c1
             + 10 * spec_digit_value c2 + spec_digit_value c3"
    by (simp add: decimal_def dv)
  have m: "decimal [c5, c6] = 10 * spec_digit_value c5 + spec_digit_value c6"
    by (simp add: decimal_def dv)
  have d: "decimal [c8, c9] = 10 * spec_digit_value c8 + spec_digit_value c9"
    by (simp add: decimal_def dv)
  have nd: "\<not> list_ex (\<lambda>c. c < CHR ''0'' \<or> CHR ''9'' < c) [c0, c1, c2, c3, c5, c6, c8, c9]"
    using True by (simp add: not_digit_char)
  have "isValidDateYYYYMMDD [c0, c1, c2, c3, c4, c5, c6, c7, c8, c9]
        = (c4 = CHR ''-'' \<and> c7 = CHR ''-''
           \<and> (if decimal [c0, c1, c2, c3] < 1000 \<or> decimal [c0, c1, c2, c3] > 9999 then False
    else if decimal [c5, c6] < 1 \<or> decimal [c5, c6] > 12 then False
    else if isLeap (decimal [c0, c1, c2, c3]) \<and> decimal [c5, c6] = 2
         then (if decimal [c8, c9] < 1 \<or> decimal [c8, c9] > 29 then False else True)
    else if decimal [c8, c9] < 1 \<or> decimal [c8, c9] > daysInMonth ! decimal [c5, c6] then False
    else True))"
    using nd unfolding isValidDateYYYYMMDD_def Let_def slice_def
    by (cases "c4 = CHR ''-''"; cases "c7 = CHR ''-''"; simp split del: if_split cong: if_cong)
  also have "\<dots> = spec_valid_date [c0, c1, c2, c3, c4, c5, c6, c7, c8, c9]"
    unfolding date_numbers_spec y m d spec_valid_date_def Let_def
    using True by simp
  finally show ?thesis .
qed

lemma valid_date_iff: "isValidDateYYYYMMDD s = spec_valid_date s"
proof (cases "length s = 10")
  case True
  then show ?thesis by (elim length10) (simp only: valid_date_10)
next
  case False
  then show ?thesis by (simp add: isValidDateYYYYMMDD_def spec_valid_date_def)
qed

text \<open>
  Claim C5. The date validator accepts exactly the ten-character strings \<open>YYYY-MM-DD\<close>
  with dashes at positions 4 and 7, digits elsewhere, a year from 1000 to 9999, a month
  from 1 to 12 and a day within the length of that month, February having 29 days
  exactly in leap years; \<open>2024-02-29\<close> is accepted and \<open>2023-02-29\<close> is not.
\<close>

theorem isValidDateYYYYMMDD_spec:
  "(\<forall>s. isValidDateYYYYMMDD s = spec_valid_date s)
   \<and> isValidDateYYYYMMDD ''2024-02-29'' \<and> \<not> isValidDateYYYYMMDD ''2023-02-29''"
proof (intro conjI allI)
  fix s
  show "isValidDateYYYYMMDD s = spec_valid_date s"
    by (rule valid_date_iff)
next
  show "isValidDateYYYYMMDD ''2024-02-29''"
    by (simp add: isValidDateYYYYMMDD_def slice_def decimal_def digitValue_def isLeap_def
        daysInMonth_def)
next
  show "\<not> isValidDateYYYYMMDD ''2023-02-29''"
    by (simp add: isValidDateYYYYMMDD_def slice_def decimal_def digitValue_def isLeap_def
        daysInMonth_def)
qed

theorem isValidDateYYYYMMDD_spec_witness:
  "spec_valid_date ''1999-12-31'' \<and> isValidDateYYYYMMDD ''1999-12-31''
   \<and> \<not> spec_valid_date ''1900-02-29'' \<and> \<not> isValidDateYYYYMMDD ''1900-02-29''"
proof -
  have a: "spec_valid_date ''1999-12-31''"
    by (simp add: spec_valid_date_def spec_digit_def spec_digit_value_def
        spec_month_length_def spec_leap_year_def)
  have b: "\<not> spec_valid_date ''1900-02-29''"
    by (simp add: spec_valid_date_def spec_digit_def spec_digit_value_def
        spec_month_length_def spec_leap_year_def)
  from a b show ?thesis
    using isValidDateYYYYMMDD_spec by simp
qed

section \<open>Evaluation on concrete inputs\<close>

lemmas case_defs =
  toUpperCase_def toLowerCase_def toUpperChar_def toLowerChar_def toLowerWChar_def
  toLowerCaseW_def lowerLetters_def upperLetters_def

text \<open>The case conversions that the examples need.\<close>

lemma lower_examples:
  "toLowerCase ''debit'' = ''debit''"
  "toLowerCase ''DEBIT'' = ''debit''"
  "toLowerCase ''credit'' = ''credit''"
  "toLowerCase ''transfer'' = ''transfer''"
  "toLowerCaseW [Latin CHR ''U'', Latin CHR ''S'', Latin CHR ''D'']
   = [Latin CHR ''u'', Latin CHR ''s'', Latin CHR ''d'']"
  by (simp_all add: case_defs)

lemma upper_examples:
  "toUpperCase ''USD'' = latin ''USD''"
  "toUpperCase ''usd'' = latin ''USD''"
  by (simp_all add: case_defs)

lemmas string_defs =
  isWhiteSpace_def trim_def slice_def digitValue_def decimal_def lower_examples upper_examples

lemmas number_defs =
  isDigit_def isDigits_def splitAt_def mantissa_def exponent_def scale10_def
  unsignedDecimal_def signedDecimal_def radixDigit_def nonDecimal_def Number_def
  Number_isNaN_def round64_def ToNumber_def ToString_def js_sub_def js_add_def
  js_lt_num_def num_sub_def

text \<open>The balances of the examples, printed.\<close>

lemma print_0: "NumberToString (Fin 0) = ''0''"
  by (simp add: NumberToString_def)

lemma print_250: "NumberToString (Fin 250) = ''250''"
  by code_simp

lemma print_1000: "NumberToString (Fin 1000) = ''1000''"
  by code_simp

lemmas parse_defs =
  ObjectPrototypeKeys_def js_in_def js_in_w_def SUPPORTED_TYPE_def SUPPORTED_CURRENCIES_def
  the_value_def PARSER_CONFIG_def truthy_def word_at_def tokens_def empty_info_def
  read_field_def parseInstructionData_def

lemmas validate_defs =
  allowed_def isValidAccountId_def daysInMonth_def isLeap_def isValidDateYYYYMMDD_def
  validateParsedFields_def

lemmas run_defs =
  get_ref_def deref_def sub_assign_def add_assign_def initial_response_def
  parseInstruction_def

text \<open>Everything but the reading of the clock, and everything.\<close>

lemmas settle_defs =
  string_defs number_defs parse_defs validate_defs run_defs
  print_0 print_250 print_1000 example_accounts_def example_data_def Let_def

lemmas eval_defs = settle_defs executeStatus_def

section \<open>Failed evaluations\<close>

lemma executeStatus_cases:
  "executeStatus e now = (pending, ''AP02'') \<or> executeStatus e now = (successful, ''AP00'')"
  by (simp add: executeStatus_def Let_def)

lemma executeStatus_not_failed: "executeStatus e now = (st, code) \<Longrightarrow> st \<noteq> failed"
  using executeStatus_cases [of e now] by auto

text \<open>
  A failed response is the initial response with a reason and a code, and the accounts
  are the ones that were passed in.
\<close>

lemma parseInstruction_failed:
  assumes "parseInstruction data now = Inr (resp, accounts')" and "r_status resp = failed"
  shows "accounts' = sd_accounts data
         \<and> (\<exists>reason code. resp = initial_response\<lparr>r_status := failed, r_status_reason := reason,
                                                      r_status_code := code\<rparr>)"
  using assms
  by (auto simp: parseInstruction_def Let_def
      split: sum.splits if_splits option.splits prod.splits dest: executeStatus_not_failed)

lemma fractional_amount_fails:
  "parseInstruction (example_data ''debit 10.5 USD x x ACC1 x x x x ACC2'') now
   = Inr (initial_response\<lparr>r_status := failed, r_status_reason := INVALID_AMOUNT,
                            r_status_code := ''AM01''\<rparr>, example_accounts)"
  by (simp add: eval_defs)

lemma unknown_account_fails:
  "parseInstruction (example_data ''credit 10 USD x x ACC1 x x x x ACC9'') now
   = Inr (initial_response\<lparr>r_status := failed, r_status_reason := ACCOUNT_NOT_FOUND,
                            r_status_code := ''AC03''\<rparr>, example_accounts)"
  by (simp add: eval_defs)

text \<open>
  Claim C6. When the result of an evaluation has status \<open>failed\<close>, no account balance
  has been changed, and evaluating the same instruction again on the accounts as they
  were left, at the same current date, gives the same response.
\<close>

theorem failed_leaves_accounts:
  assumes "parseInstruction data now = Inr (resp, accounts')" and "r_status resp = failed"
  shows "accounts' = sd_accounts data
         \<and> parseInstruction (data\<lparr>sd_accounts := accounts'\<rparr>) now = Inr (resp, accounts')"
proof -
  from parseInstruction_failed [OF assms] have same: "accounts' = sd_accounts data"
    by blast
  then have "data\<lparr>sd_accounts := accounts'\<rparr> = data"
    by simp
  with same assms(1) show ?thesis
    by simp
qed

theorem failed_leaves_accounts_witness:
  "r_status (initial_response\<lparr>r_status := failed, r_status_reason := INVALID_AMOUNT,
                              r_status_code := ''AM01''\<rparr>) = failed
   \<and> example_accounts = sd_accounts (example_data ''debit 10.5 USD x x ACC1 x x x x ACC2'')
   \<and> parseInstruction
        ((example_data ''debit 10.5 USD x x ACC1 x x x x ACC2'')\<lparr>sd_accounts := example_accounts\<rparr>)
        example_clock
      = Inr (initial_response\<lparr>r_status := failed, r_status_reason := INVALID_AMOUNT,
                               r_status_code := ''AM01''\<rparr>, example_accounts)"
proof -
  have st: "r_status (initial_response\<lparr>r_status := failed, r_status_reason := INVALID_AMOUNT,
                                        r_status_code := ''AM01''\<rparr>) = failed"
    by simp
  from failed_leaves_accounts [OF fractional_amount_fails [of example_clock] st] st
  show ?thesis by simp
qed

text \<open>
  Claim C10. When the result of an evaluation has status \<open>failed\<close>, the response has
  no type, amount, currency, debit account, credit account or execution date, and its
  list of accounts is empty, whatever was parsed from the instruction.
\<close>

theorem failed_response_is_empty:
  assumes "parseInstruction data now = Inr (resp, accounts')" and "r_status resp = failed"
  shows "r_type resp = None \<and> r_amount resp = None \<and> r_currency resp = None
         \<and> r_debit_account resp = None \<and> r_credit_account resp = None
         \<and> r_execute_by resp = None \<and> r_accounts resp = []"
proof -
  from parseInstruction_failed [OF assms] obtain reason code where
    "resp = initial_response\<lparr>r_status := failed, r_status_reason := reason, r_status_code := code\<rparr>"
    by blast
  then show ?thesis
    by (simp add: initial_response_def)
qed

theorem failed_response_is_empty_witness:
  "r_status (initial_response\<lparr>r_status := failed, r_status_reason := ACCOUNT_NOT_FOUND,
                              r_status_code := ''AC03''\<rparr>) = failed
   \<and> r_type (initial_response\<lparr>r_status := failed, r_status_reason := ACCOUNT_NOT_FOUND,
                              r_status_code := ''AC03''\<rparr>) = None
   \<and> r_amount (initial_response\<lparr>r_status := failed, r_status_reason := ACCOUNT_NOT_FOUND,
                                r_status_code := ''AC03''\<rparr>) = None
   \<and> r_accounts (initial_response\<lparr>r_status := failed, r_status_reason := ACCOUNT_NOT_FOUND,
                                  r_status_code := ''AC03''\<rparr>) = []"
proof -
  have st: "r_status (initial_response\<lparr>r_status := failed, r_status_reason := ACCOUNT_NOT_FOUND,
                                        r_status_code := ''AC03''\<rparr>) = failed"
    by simp
  from failed_response_is_empty [OF unknown_account_fails [of example_clock] st] st
  show ?thesis by simp
qed

section \<open>Settlement on concrete instructions\<close>

text \<open>
  Claim C1 asks that a successful debit leaves the credit account with its prior balance
  plus the amount. The settlement adds the amount as it was parsed, a string: on
  \<open>DEBIT 500 USD x x ACC1 x x x x ACC2\<close> with balances 1000 and 250 the evaluation is
  successful, the debit account goes to the number 500, and the credit account's
  balance becomes the string \<open>250500\<close>, not the number 750. Both \<open>balance_before\<close>
  entries hold the balances from before the settlement.
\<close>

theorem credit_balance_is_concatenated:
  "parseInstruction
     \<lparr>sd_accounts = funded_accounts, sd_instruction = ''DEBIT 500 USD x x ACC1 x x x x ACC2''\<rparr> now
   = Inr (\<lparr>r_type = Some ''DEBIT'', r_amount = Some (Fin 500), r_currency = Some (latin ''USD''),
           r_debit_account = Some ''ACC1'', r_credit_account = Some ''ACC2'',
           r_execute_by = None, r_status = successful,
           r_status_reason = TRANSACTION_SUCCESSFUL, r_status_code = ''AP00'',
           r_accounts =
             [\<lparr>fa_id = ''ACC1'', fa_balance = JNum (Fin 500),
               fa_balance_before = JNum (Fin 1000), fa_currency = latin ''USD''\<rparr>,
              \<lparr>fa_id = ''ACC2'', fa_balance = JStr ''250500'',
               fa_balance_before = JNum (Fin 250), fa_currency = latin ''USD''\<rparr>]\<rparr>,
          [\<lparr>acc_id = ''ACC1'', acc_balance = JNum (Fin 500), acc_currency = ''USD''\<rparr>,
           \<lparr>acc_id = ''ACC2'', acc_balance = JStr ''250500'', acc_currency = ''USD''\<rparr>])"
  by (simp add: eval_defs funded_accounts_def)

text \<open>
  The amounts that the validation chain does refuse, once the instruction has a type:
  a missing amount, an amount with a decimal point, and an amount whose number is zero
  or less.
\<close>

lemma refused_amounts:
  assumes "parseInstructionData (trim (sd_instruction data)) = Inr parsed"
    and "truthy (p_type parsed)"
    and "p_amount parsed = None
         \<or> (\<exists>a. p_amount parsed = Some a \<and> (CHR ''.'' \<in> set a \<or> num_le (Number a) (Fin 0)))"
  shows "parseInstruction data now
         = Inr (initial_response\<lparr>r_status := failed, r_status_reason := INVALID_AMOUNT,
                                  r_status_code := ''AM01''\<rparr>, sd_accounts data)"
proof -
  from assms(2) have t: "p_type parsed \<noteq> None"
    by (auto simp: truthy_def split: option.splits)
  from assms(3) t
  have "validateParsedFields parsed
          (\<lambda>k. deref (sd_accounts data) (get_ref (setAll (sd_accounts data) 0 Map.empty) k))
        = Some (''AM01'', INVALID_AMOUNT)"
    by (auto simp: validateParsedFields_def Let_def)
  with assms(1,2) show ?thesis
    by (simp add: parseInstruction_def Let_def)
qed

text \<open>
  Claim C2 asks that an amount that is not numeric fails with \<open>AM01\<close>. The amount is
  tested with \<^verbatim>\<open>Number.isNaN\<close> while it is still a string, and \<open>NaN <= 0\<close> is false:
  on \<open>DEBIT abc USD x x ACC1 x x x x ACC2\<close> the evaluation is successful with the
  amount \<open>NaN\<close>.
\<close>

theorem non_numeric_amount_is_accepted:
  "parseInstruction (example_data ''DEBIT abc USD x x ACC1 x x x x ACC2'') now
   = Inr (\<lparr>r_type = Some ''DEBIT'', r_amount = Some NaN, r_currency = Some (latin ''USD''),
           r_debit_account = Some ''ACC1'', r_credit_account = Some ''ACC2'',
           r_execute_by = None, r_status = successful,
           r_status_reason = TRANSACTION_SUCCESSFUL, r_status_code = ''AP00'',
           r_accounts =
             [\<lparr>fa_id = ''ACC1'', fa_balance = JNum NaN,
               fa_balance_before = JNum (Fin 1000), fa_currency = latin ''USD''\<rparr>,
              \<lparr>fa_id = ''ACC2'', fa_balance = JStr ''0abc'',
               fa_balance_before = JNum (Fin 0), fa_currency = latin ''USD''\<rparr>]\<rparr>,
          [\<lparr>acc_id = ''ACC1'', acc_balance = JNum NaN, acc_currency = ''USD''\<rparr>,
           \<lparr>acc_id = ''ACC2'', acc_balance = JStr ''0abc'', acc_currency = ''USD''\<rparr>])"
  by (simp add: eval_defs)

text \<open>
  Claim C4 asks that a debit of more than the debit account holds fails with \<open>AC01\<close>
  whatever the letter case of the type token. The type is kept as it was typed and
  compared with \<open>DEBIT\<close>: with a balance of 1000, \<open>DEBIT 5000 ...\<close> fails with
  \<open>AC01\<close>, and \<open>debit 5000 ...\<close> is successful and leaves the debit account at -4000.
\<close>

theorem lower_case_debit_overdraws:
  "parseInstruction (example_data ''DEBIT 5000 USD x x ACC1 x x x x ACC2'') now
   = Inr (initial_response\<lparr>r_status := failed, r_status_reason := INSUFFICIENT_FUNDS,
                            r_status_code := ''AC01''\<rparr>, example_accounts)
   \<and> parseInstruction (example_data ''debit 5000 USD x x ACC1 x x x x ACC2'') now
   = Inr (\<lparr>r_type = Some ''debit'', r_amount = Some (Fin 5000), r_currency = Some (latin ''USD''),
           r_debit_account = Some ''ACC1'', r_credit_account = Some ''ACC2'',
           r_execute_by = None, r_status = successful,
           r_status_reason = TRANSACTION_SUCCESSFUL, r_status_code = ''AP00'',
           r_accounts =
             [\<lparr>fa_id = ''ACC1'', fa_balance = JNum (Fin (- 4000)),
               fa_balance_before = JNum (Fin 1000), fa_currency = latin ''USD''\<rparr>,
              \<lparr>fa_id = ''ACC2'', fa_balance = JStr ''05000'',
               fa_balance_before = JNum (Fin 0), fa_currency = latin ''USD''\<rparr>]\<rparr>,
          [\<lparr>acc_id = ''ACC1'', acc_balance = JNum (Fin (- 4000)), acc_currency = ''USD''\<rparr>,
           \<lparr>acc_id = ''ACC2'', acc_balance = JStr ''05000'', acc_currency = ''USD''\<rparr>])"
  by (simp add: eval_defs)

text \<open>
  Claim C9 asks that the response of a successful or pending evaluation carries the
  normalized type. Only the currency is put in upper case: on
  \<open>credit 200 usd x x ACC2 x x x x ACC1\<close> the response has the currency \<open>USD\<close> and
  the type \<open>credit\<close> as it was typed. The two accounts are listed in the order of the
  input, with the balances from before and after the settlement.
\<close>

theorem response_type_is_verbatim:
  "parseInstruction (example_data ''credit 200 usd x x ACC2 x x x x ACC1'') now
   = Inr (\<lparr>r_type = Some ''credit'', r_amount = Some (Fin 200), r_currency = Some (latin ''USD''),
           r_debit_account = Some ''ACC1'', r_credit_account = Some ''ACC2'',
           r_execute_by = None, r_status = successful,
           r_status_reason = TRANSACTION_SUCCESSFUL, r_status_code = ''AP00'',
           r_accounts =
             [\<lparr>fa_id = ''ACC1'', fa_balance = JNum (Fin 800),
               fa_balance_before = JNum (Fin 1000), fa_currency = latin ''USD''\<rparr>,
              \<lparr>fa_id = ''ACC2'', fa_balance = JStr ''0200'',
               fa_balance_before = JNum (Fin 0), fa_currency = latin ''USD''\<rparr>]\<rparr>,
          [\<lparr>acc_id = ''ACC1'', acc_balance = JNum (Fin 800), acc_currency = ''USD''\<rparr>,
           \<lparr>acc_id = ''ACC2'', acc_balance = JStr ''0200'', acc_currency = ''USD''\<rparr>])"
  by (simp add: eval_defs)

section \<open>Time values follow the calendar\<close>

lemma div_succ:
  fixes n k :: int
  assumes "0 < k"
  shows "(n + 1) div k = n div k + (if (n + 1) mod k = 0 then 1 else 0)"
proof (cases "n mod k + 1 = k")
  case True
  have "n + 1 = k * (n div k + 1) + 0"
  proof -
    have "n + 1 = k * (n div k) + (n mod k + 1)" by simp
    also have "\<dots> = k * (n div k) + k" using True by simp
    finally show ?thesis by (simp add: algebra_simps)
  qed
  then have "(n + 1) div k = n div k + 1" "(n + 1) mod k = 0"
    using assms int_div_pos_eq [of "n + 1" k "n div k + 1" 0] int_mod_pos_eq [of "n + 1" k "n div k + 1" 0]
    by simp_all
  then show ?thesis by simp
next
  case False
  have "n mod k < k" "0 \<le> n mod k"
    using assms by simp_all
  with False have r: "0 \<le> n mod k + 1" "n mod k + 1 < k"
    by linarith+
  have "n + 1 = k * (n div k) + (n mod k + 1)"
    by simp
  then have "(n + 1) div k = n div k" "(n + 1) mod k = n mod k + 1"
    using r int_div_pos_eq [of "n + 1" k "n div k" "n mod k + 1"] int_mod_pos_eq [of "n + 1" k "n div k" "n mod k + 1"]
    by simp_all
  moreover have "n mod k + 1 \<noteq> 0"
    using \<open>0 \<le> n mod k\<close> by linarith
  ultimately show ?thesis by simp
qed
lemma shift4: "(y - 1968) mod 4 = (y::int) mod 4"
  by presburger
lemma shift100: "(y - 1900) mod 100 = (y::int) mod 100"
proof -
  have "y - 1900 = y + (- 19) * 100" by simp
  then show ?thesis by (simp only: mod_mult_self1)
qed
lemma shift400: "(y - 1600) mod 400 = (y::int) mod 400"
proof -
  have "y - 1600 = y + (- 4) * 400" by simp
  then show ?thesis by (simp only: mod_mult_self1)
qed

lemma DayFromYear_step:
  "DayFromYear (y + 1) = DayFromYear y + (if InLeapYear y then 366 else 365)"
proof -
  have a: "(y + 1 - 1969) div 4 = (y - 1969) div 4 + (if y mod 4 = 0 then 1 else 0)"
    using div_succ [of 4 "y - 1969"] shift4 [of y] by (simp add: algebra_simps)
  have b: "(y + 1 - 1901) div 100 = (y - 1901) div 100 + (if y mod 100 = 0 then 1 else 0)"
    using div_succ [of 100 "y - 1901"] shift100 [of y] by (simp add: algebra_simps)
  have c: "(y + 1 - 1601) div 400 = (y - 1601) div 400 + (if y mod 400 = 0 then 1 else 0)"
    using div_succ [of 400 "y - 1601"] shift400 [of y] by (simp add: algebra_simps)
  have d: "400 dvd y \<Longrightarrow> 100 dvd y" "100 dvd y \<Longrightarrow> 4 dvd y"
    by (rule dvd_trans [of 100 400 y], simp, assumption) (rule dvd_trans [of 4 100 y], simp, assumption)
  show ?thesis
    unfolding DayFromYear_def InLeapYear_def a b c using d by auto
qed
lemma DayFromYear_mono_nat: "DayFromYear y \<le> DayFromYear (y + int k)"
proof (induction k)
  case 0
  then show ?case by simp
next
  case (Suc k)
  have "DayFromYear (y + int k) \<le> DayFromYear ((y + int k) + 1)"
    by (simp add: DayFromYear_step)
  with Suc show ?case
    by (simp add: add.assoc add.commute [of 1])
qed

lemma DayFromYear_mono: "y \<le> y' \<Longrightarrow> DayFromYear y \<le> DayFromYear y'"
  using DayFromYear_mono_nat [of y "nat (y' - y)"] by simp

lemma InLeapYear_spec: "0 \<le> y \<Longrightarrow> InLeapYear y = spec_leap_year (nat y)"
proof -
  assume "0 \<le> y"
  then obtain n where y: "y = int n"
    using zero_le_imp_eq_int by blast
  have d: "400 dvd n \<Longrightarrow> 100 dvd n" "100 dvd n \<Longrightarrow> 4 dvd n"
    by (rule dvd_trans [of 100 400 n], simp, assumption) (rule dvd_trans [of 4 100 n], simp, assumption)
  have m: "(4 dvd int n) = (4 dvd n)" "(100 dvd int n) = (100 dvd n)" "(400 dvd int n) = (400 dvd n)"
    using int_dvd_int_iff [of 4 n] int_dvd_int_iff [of 100 n] int_dvd_int_iff [of 400 n]
    by simp_all
  show ?thesis
    unfolding y InLeapYear_def spec_leap_year_def nat_int using d
    by (auto simp: m)
qed
lemma month0_cases:
  "0 \<le> m \<Longrightarrow> m \<le> (11::int) \<Longrightarrow>
   m = 0 \<or> m = 1 \<or> m = 2 \<or> m = 3 \<or> m = 4 \<or> m = 5 \<or> m = 6 \<or> m = 7 \<or> m = 8 \<or> m = 9 \<or> m = 10 \<or> m = 11"
  by presburger

text \<open>The last day of a month comes before the first day of every later month.\<close>

lemma month_end_before:
  assumes "0 \<le> m" "m < m'" "m' \<le> 11" "0 \<le> y"
  shows "DaysBeforeMonth (InLeapYear y) m + int (spec_month_length (nat y) (nat (m + 1)))
         \<le> DaysBeforeMonth (InLeapYear y) m'"
proof -
  from assms have "0 \<le> m" "m \<le> 11" by simp_all
  from month0_cases [OF this] show ?thesis
    using assms
    apply (elim disjE)
    apply (simp_all add: spec_month_length_def InLeapYear_spec)
    apply (simp_all add: DaysBeforeMonth_def)
    done
qed

lemma year_end_before:
  assumes "0 \<le> m" "m \<le> 11" "0 \<le> y"
  shows "DaysBeforeMonth (InLeapYear y) m + int (spec_month_length (nat y) (nat (m + 1)))
         \<le> (if InLeapYear y then 366 else 365)"
  using month0_cases [OF assms(1,2)] assms(3)
  apply (elim disjE)
  apply (simp_all add: spec_month_length_def InLeapYear_spec)
  apply (simp_all add: DaysBeforeMonth_def)
  done

lemma DaysBeforeMonth_nonneg: "0 \<le> DaysBeforeMonth l m"
  by (simp add: DaysBeforeMonth_def)

text \<open>A day of the calendar lies within its year.\<close>

lemma MakeDay_in_year:
  assumes "0 \<le> y" "0 \<le> m" "m \<le> 11" "1 \<le> d"
    and "d \<le> int (spec_month_length (nat y) (nat (m + 1)))"
  shows "DayFromYear y \<le> MakeDay y m d" and "MakeDay y m d < DayFromYear (y + 1)"
proof -
  from assms(2,3) have dm: "m div 12 = 0" "m mod 12 = m"
    by simp_all
  then have md: "MakeDay y m d = DayFromYear y + DaysBeforeMonth (InLeapYear y) m + d - 1"
    by (simp add: MakeDay_def)
  show "DayFromYear y \<le> MakeDay y m d"
    using md assms(4) DaysBeforeMonth_nonneg [of "InLeapYear y" m] by linarith
  have "DaysBeforeMonth (InLeapYear y) m + d \<le> (if InLeapYear y then 366 else 365)"
    using year_end_before [OF assms(2,3,1)] assms(5) by linarith
  then show "MakeDay y m d < DayFromYear (y + 1)"
    unfolding md DayFromYear_step by linarith
qed

lemma MakeDay_later:
  assumes a: "0 \<le> y" "0 \<le> m" "m \<le> 11" "1 \<le> d"
      "d \<le> int (spec_month_length (nat y) (nat (m + 1)))"
    and b: "0 \<le> y'" "0 \<le> m'" "m' \<le> 11" "1 \<le> d'"
      "d' \<le> int (spec_month_length (nat y') (nat (m' + 1)))"
    and l: "later (y, m + 1, d) (y', m' + 1, d')"
  shows "MakeDay y' m' d' < MakeDay y m d"
proof -
  from l consider "y' < y" | "y' = y" "m' < m" | "y' = y" "m' = m" "d' < d"
    by (auto simp: later_def)
  then show ?thesis
  proof cases
    case 1
    then have "DayFromYear (y' + 1) \<le> DayFromYear y"
      by (simp add: DayFromYear_mono)
    with MakeDay_in_year(2) [OF b] MakeDay_in_year(1) [OF a] show ?thesis
      by linarith
  next
    case 2
    from a(2,3) b(2,3) have dm: "m div 12 = 0" "m mod 12 = m" "m' div 12 = 0" "m' mod 12 = m'"
      by simp_all
    have "DaysBeforeMonth (InLeapYear y) m' + int (spec_month_length (nat y) (nat (m' + 1)))
          \<le> DaysBeforeMonth (InLeapYear y) m"
      using month_end_before [OF b(2) 2(2) a(3) a(1)] .
    with b(5) a(4) 2(1) show ?thesis
      by (simp add: MakeDay_def dm)
  next
    case 3
    then show ?thesis
      by (simp add: MakeDay_def Let_def)
  qed
qed

lemma MakeDay_later_iff:
  assumes a: "0 \<le> y" "0 \<le> m" "m \<le> 11" "1 \<le> d"
      "d \<le> int (spec_month_length (nat y) (nat (m + 1)))"
    and b: "0 \<le> y'" "0 \<le> m'" "m' \<le> 11" "1 \<le> d'"
      "d' \<le> int (spec_month_length (nat y') (nat (m' + 1)))"
  shows "(MakeDay y' m' d' < MakeDay y m d) = later (y, m + 1, d) (y', m' + 1, d')"
proof (cases "later (y, m + 1, d) (y', m' + 1, d')")
  case True
  with MakeDay_later [OF a b] show ?thesis by simp
next
  case False
  then have "(y = y' \<and> m = m' \<and> d = d') \<or> later (y', m' + 1, d') (y, m + 1, d)"
    unfolding later_def prod.case by linarith
  then consider "y = y'" "m = m'" "d = d'" | "later (y', m' + 1, d') (y, m + 1, d)"
    by blast
  then have "MakeDay y m d \<le> MakeDay y' m' d'"
  proof cases
    case 1
    then show ?thesis by simp
  next
    case 2
    with MakeDay_later [OF b a] show ?thesis by simp
  qed
  with False show ?thesis by simp
qed

text \<open>A time value is later exactly when the date is later in the calendar.\<close>

lemma Date_UTC_later_iff:
  assumes a: "100 \<le> y" "0 \<le> m" "m \<le> 11" "1 \<le> d"
      "d \<le> int (spec_month_length (nat y) (nat (m + 1)))"
    and b: "100 \<le> y'" "0 \<le> m'" "m' \<le> 11" "1 \<le> d'"
      "d' \<le> int (spec_month_length (nat y') (nat (m' + 1)))"
  shows "(Date_UTC y m d > Date_UTC y' m' d') = later (y, m + 1, d) (y', m' + 1, d')"
proof -
  from a(1) b(1) have y: "0 \<le> y" "0 \<le> y'" by simp_all
  have "(Date_UTC y m d > Date_UTC y' m' d') = (MakeDay y' m' d' < MakeDay y m d)"
    using a(1) b(1) by (simp add: Date_UTC_def msPerDay_def)
  then show ?thesis
    using MakeDay_later_iff [OF y(1) a(2-5) y(2) b(2-5)] by simp
qed

section \<open>Immediate and deferred execution\<close>

lemma decimal4:
  "list_all spec_digit [c0, c1, c2, c3] \<Longrightarrow>
   decimal [c0, c1, c2, c3]
   = 1000 * spec_digit_value c0 + 100 * spec_digit_value c1
     + 10 * spec_digit_value c2 + spec_digit_value c3"
  by (simp add: decimal_def spec_digit_def digitValue_spec)

lemma decimal2:
  "list_all spec_digit [c0, c1] \<Longrightarrow>
   decimal [c0, c1] = 10 * spec_digit_value c0 + spec_digit_value c1"
  by (simp add: decimal_def spec_digit_def digitValue_spec)

text \<open>The pieces that the settlement cuts out of a valid date are its year, month and day.\<close>

lemma valid_date_parts:
  assumes "isValidDateYYYYMMDD s"
  shows "(int (decimal (slice 0 4 s)), int (decimal (slice 5 7 s)), int (decimal (slice 8 10 s)))
         = spec_date_of s"
proof -
  from assms have v: "spec_valid_date s"
    by (simp add: valid_date_iff)
  then have "length s = 10"
    by (simp add: spec_valid_date_def)
  then obtain c0 c1 c2 c3 c4 c5 c6 c7 c8 c9 where s: "s = [c0, c1, c2, c3, c4, c5, c6, c7, c8, c9]"
    by (rule length10)
  from v have "list_all spec_digit [c0, c1, c2, c3]" "list_all spec_digit [c5, c6]"
    "list_all spec_digit [c8, c9]"
    by (simp_all add: s spec_valid_date_def)
  then show ?thesis
    by (simp add: s slice_def spec_date_of_def decimal4 decimal2)
qed

lemma valid_date_range:
  assumes "isValidDateYYYYMMDD s" and "spec_date_of s = (y, m, d)"
  shows "1000 \<le> y" "1 \<le> m" "m \<le> 12" "1 \<le> d" "d \<le> int (spec_month_length (nat y) (nat m))"
proof -
  from assms(1) have v: "spec_valid_date s"
    by (simp add: valid_date_iff)
  with assms(2) show "1000 \<le> y" "1 \<le> m" "m \<le> 12" "1 \<le> d"
    "d \<le> int (spec_month_length (nat y) (nat m))"
    unfolding spec_valid_date_def spec_date_of_def Let_def
    by (auto simp del: of_nat_add of_nat_mult)
qed

lemma executeStatus_valid_date:
  assumes e: "isValidDateYYYYMMDD e" and c: "valid_clock now"
  shows "executeStatus (Some e) now
         = (if later (spec_date_of e) (current_date now) then (pending, ''AP02'')
            else (successful, ''AP00''))"
proof -
  obtain y m d where ymd: "spec_date_of e = (y, m, d)"
    by (cases "spec_date_of e") auto
  note r = valid_date_range [OF e ymd]
  from valid_date_parts [OF e] ymd
  have p: "int (decimal (slice 0 4 e)) = y" "int (decimal (slice 5 7 e)) = m"
    "int (decimal (slice 8 10 e)) = d"
    by simp_all
  from e have ne: "e \<noteq> []"
    by (auto simp: isValidDateYYYYMMDD_def)
  have a: "100 \<le> y" "0 \<le> m - 1" "m - 1 \<le> 11" "1 \<le> d"
    "d \<le> int (spec_month_length (nat y) (nat (m - 1 + 1)))"
    using r by simp_all
  from c have b: "100 \<le> getUTCFullYear now" "0 \<le> getUTCMonth now" "getUTCMonth now \<le> 11"
    "1 \<le> getUTCDate now"
    "getUTCDate now \<le> int (spec_month_length (nat (getUTCFullYear now)) (nat (getUTCMonth now + 1)))"
    by (simp_all add: valid_clock_def)
  have "(Date_UTC y (m - 1) d > Date_UTC (getUTCFullYear now) (getUTCMonth now) (getUTCDate now))
        = later (y, m, d) (current_date now)"
    using Date_UTC_later_iff [OF a b] by (simp add: current_date_def)
  then show ?thesis
    using ne by (simp add: executeStatus_def truthy_def Let_def p ymd)
qed









lemma example_clock_valid: "valid_clock example_clock"
  by (simp add: valid_clock_def example_clock_def spec_month_length_def spec_leap_year_def)



section \<open>The deferred scenario\<close>

text \<open>
  In \<open>debit 500 usd x x x ACC1 x x x x ACC2 x 2099-01-01\<close> the tokens 5, 10 and 12,
  where the parser reads the two accounts and the date, are all \<open>x\<close>.
\<close>

lemma scenario_as_written:
  "parseInstruction (example_data ''debit 500 usd x x x ACC1 x x x x ACC2 x 2099-01-01'') now
   = Inr (initial_response\<lparr>r_status := failed, r_status_reason := ACCOUNT_NOT_FOUND,
                            r_status_code := ''AC03''\<rparr>, example_accounts)"
  by (simp add: eval_defs)

text \<open>With one placeholder fewer before \<open>ACC1\<close> the accounts and the date are in place.\<close>

lemma scenario_in_place:
  assumes "executeStatus (Some ''2099-01-01'') now = (pending, ''AP02'')"
  shows "parseInstruction (example_data ''debit 500 usd x x ACC1 x x x x ACC2 x 2099-01-01'') now
   = Inr (\<lparr>r_type = Some ''debit'', r_amount = Some (Fin 500), r_currency = Some (latin ''USD''),
           r_debit_account = Some ''ACC1'', r_credit_account = Some ''ACC2'',
           r_execute_by = Some ''2099-01-01'', r_status = pending,
           r_status_reason = TRANSACTION_PENDING, r_status_code = ''AP02'',
           r_accounts =
             [\<lparr>fa_id = ''ACC1'', fa_balance = JNum (Fin 1000),
               fa_balance_before = JNum (Fin 1000), fa_currency = latin ''USD''\<rparr>,
              \<lparr>fa_id = ''ACC2'', fa_balance = JNum (Fin 0),
               fa_balance_before = JNum (Fin 0), fa_currency = latin ''USD''\<rparr>]\<rparr>,
          example_accounts)"
  using assms by (simp add: settle_defs)

lemma deferred_until_2099:
  assumes "valid_clock now" and "later (2099, 1, 1) (current_date now)"
  shows "executeStatus (Some ''2099-01-01'') now = (pending, ''AP02'')"
proof -
  have v: "isValidDateYYYYMMDD ''2099-01-01''"
    by (simp add: validate_defs string_defs)
  have d: "spec_date_of ''2099-01-01'' = (2099, 1, 1)"
    by (simp add: spec_date_of_def spec_digit_value_def)
  from executeStatus_valid_date [OF v assms(1)] assms(2) show ?thesis
    by (simp add: d)
qed

text \<open>
  Claim C8, as amended. Against the accounts ACC1 (balance 1000, USD) and ACC2
  (balance 0, USD), the instruction \<open>debit 500 usd x x x ACC1 x x x x ACC2 x 2099-01-01\<close>
  fails with code \<open>AC03\<close> and changes no balance, because the parser reads the accounts
  at tokens 5 and 10. With the accounts and the date at the tokens 5, 10 and 12, as in
  \<open>debit 500 usd x x ACC1 x x x x ACC2 x 2099-01-01\<close>, and a current UTC date before
  1 January 2099, the status is \<open>pending\<close> with code \<open>AP02\<close> and no balance changes.
\<close>

theorem deferred_scenario:
  "parseInstruction (example_data ''debit 500 usd x x x ACC1 x x x x ACC2 x 2099-01-01'') now
   = Inr (initial_response\<lparr>r_status := failed, r_status_reason := ACCOUNT_NOT_FOUND,
                            r_status_code := ''AC03''\<rparr>, example_accounts)
   \<and> (valid_clock now \<and> later (2099, 1, 1) (current_date now) \<longrightarrow>
        parseInstruction (example_data ''debit 500 usd x x ACC1 x x x x ACC2 x 2099-01-01'') now
        = Inr (\<lparr>r_type = Some ''debit'', r_amount = Some (Fin 500), r_currency = Some (latin ''USD''),
                r_debit_account = Some ''ACC1'', r_credit_account = Some ''ACC2'',
                r_execute_by = Some ''2099-01-01'', r_status = pending,
                r_status_reason = TRANSACTION_PENDING, r_status_code = ''AP02'',
                r_accounts =
                  [\<lparr>fa_id = ''ACC1'', fa_balance = JNum (Fin 1000),
                    fa_balance_before = JNum (Fin 1000), fa_currency = latin ''USD''\<rparr>,
                   \<lparr>fa_id = ''ACC2'', fa_balance = JNum (Fin 0),
                    fa_balance_before = JNum (Fin 0), fa_currency = latin ''USD''\<rparr>]\<rparr>,
               example_accounts))"
  using scenario_as_written [of now] scenario_in_place [OF deferred_until_2099, of now]
  by blast

theorem deferred_scenario_witness:
  "valid_clock example_clock \<and> later (2099, 1, 1) (current_date example_clock)
   \<and> parseInstruction (example_data ''debit 500 usd x x ACC1 x x x x ACC2 x 2099-01-01'')
        example_clock
      = Inr (\<lparr>r_type = Some ''debit'', r_amount = Some (Fin 500), r_currency = Some (latin ''USD''),
              r_debit_account = Some ''ACC1'', r_credit_account = Some ''ACC2'',
              r_execute_by = Some ''2099-01-01'', r_status = pending,
              r_status_reason = TRANSACTION_PENDING, r_status_code = ''AP02'',
              r_accounts =
                [\<lparr>fa_id = ''ACC1'', fa_balance = JNum (Fin 1000),
                  fa_balance_before = JNum (Fin 1000), fa_currency = latin ''USD''\<rparr>,
                 \<lparr>fa_id = ''ACC2'', fa_balance = JNum (Fin 0),
                  fa_balance_before = JNum (Fin 0), fa_currency = latin ''USD''\<rparr>]\<rparr>,
             example_accounts)"
proof -
  have l: "later (2099, 1, 1) (current_date example_clock)"
    by (simp add: later_def current_date_def example_clock_def)
  with example_clock_valid deferred_scenario [of example_clock] show ?thesis
    by blast
qed

text \<open>The scenario as claim C8 words it is not pending: it fails with \<open>AC03\<close>.\<close>

theorem scenario_as_written_not_pending:
  "parseInstruction (example_data ''debit 500 usd x x x ACC1 x x x x ACC2 x 2099-01-01'')
     example_clock
   = Inr (initial_response\<lparr>r_status := failed, r_status_reason := ACCOUNT_NOT_FOUND,
                            r_status_code := ''AC03''\<rparr>, example_accounts)
   \<and> r_status (initial_response\<lparr>r_status := failed, r_status_reason := ACCOUNT_NOT_FOUND,
                                r_status_code := ''AC03''\<rparr>) \<noteq> pending
   \<and> r_status_code (initial_response\<lparr>r_status := failed, r_status_reason := ACCOUNT_NOT_FOUND,
                                     r_status_code := ''AC03''\<rparr>) \<noteq> ''AP02''"
  using scenario_as_written [of example_clock] by simp

section \<open>Instructions without a supported type\<close>

lemma unsupported_keyword_parses_empty:
  assumes "unsupported_type_keyword instruction"
  shows "parseInstructionData (trim instruction) = Inr empty_info"
  using assms
  by (auto simp: unsupported_type_keyword_def first_token_def parseInstructionData_def Let_def
      js_in_def SUPPORTED_TYPE_def split: option.splits)

text \<open>The validation chain answers \<open>PR01\<close> to fields without a type, when it is asked.\<close>

lemma validateParsedFields_no_type:
  "p_type parsed = None \<Longrightarrow>
   validateParsedFields parsed get = Some (''PR01'', MALFORMED_INSTRUCTION)"
  by (simp add: validateParsedFields_def)

lemma transfer_is_malformed:
  "parseInstruction (example_data ''transfer 500 USD x x ACC1 x x x x ACC2'') now
   = Inr (initial_response\<lparr>r_status := failed, r_status_reason := MALFORMED_INSTRUCTION,
                            r_status_code := ''SY03''\<rparr>, example_accounts)"
  by (simp add: eval_defs)

text \<open>
  Claim C3, as amended. For every instruction whose first token is missing or, in lower
  case, is neither \<open>credit\<close> nor \<open>debit\<close> nor the name of an inherited property (so
  that the parsed type is null), the evaluation returns the status \<open>failed\<close> with the
  code \<open>SY03\<close> and the malformed-instruction message, and leaves the accounts as they
  were. The evaluation does not ask the validation chain about such an instruction.
\<close>

theorem unsupported_keyword_is_malformed:
  assumes "unsupported_type_keyword (sd_instruction data)"
  shows "parseInstruction data now
         = Inr (initial_response\<lparr>r_status := failed, r_status_reason := MALFORMED_INSTRUCTION,
                                  r_status_code := ''SY03''\<rparr>, sd_accounts data)"
  using unsupported_keyword_parses_empty [OF assms]
  by (simp add: parseInstruction_def Let_def empty_info_def truthy_def)

theorem unsupported_keyword_is_malformed_witness:
  "unsupported_type_keyword ''transfer 500 USD x x ACC1 x x x x ACC2''
   \<and> parseInstruction (example_data ''transfer 500 USD x x ACC1 x x x x ACC2'') example_clock
     = Inr (initial_response\<lparr>r_status := failed, r_status_reason := MALFORMED_INSTRUCTION,
                              r_status_code := ''SY03''\<rparr>, example_accounts)"
proof -
  have u: "unsupported_type_keyword ''transfer 500 USD x x ACC1 x x x x ACC2''"
    by (simp add: unsupported_type_keyword_def first_token_def string_defs parse_defs)
  then have "unsupported_type_keyword
               (sd_instruction (example_data ''transfer 500 USD x x ACC1 x x x x ACC2''))"
    by (simp add: example_data_def)
  from unsupported_keyword_is_malformed [OF this, of example_clock] u show ?thesis
    by (simp add: example_data_def)
qed

text \<open>The code of such an evaluation is not \<open>PR01\<close>, as claim C3 has it.\<close>

theorem unknown_keyword_code_is_not_PR01:
  "parseInstruction (example_data ''transfer 500 USD x x ACC1 x x x x ACC2'') example_clock
   = Inr (initial_response\<lparr>r_status := failed, r_status_reason := MALFORMED_INSTRUCTION,
                            r_status_code := ''SY03''\<rparr>, example_accounts)
   \<and> r_status_code (initial_response\<lparr>r_status := failed, r_status_reason := MALFORMED_INSTRUCTION,
                                     r_status_code := ''SY03''\<rparr>) \<noteq> ''PR01''"
  using transfer_is_malformed [of example_clock] by simp

section \<open>Numbers written in digits\<close>

lemma isDigit_spec: "isDigit c = spec_digit c"
  by (simp only: isDigit_def spec_digit_def digit_char_iff)

lemma takeWhile_digits:
  assumes "list_all isDigit s" and "\<And>c. spec_digit c \<Longrightarrow> \<not> P c"
  shows "takeWhile (\<lambda>c. \<not> P c) s = s" and "dropWhile (\<lambda>c. \<not> P c) s = []"
  using assms by (induction s) (simp_all add: isDigit_spec)

lemma splitAt_digits:
  assumes "list_all isDigit s" and "\<And>c. spec_digit c \<Longrightarrow> \<not> P c"
  shows "splitAt P s = (s, None)"
  by (simp add: splitAt_def takeWhile_digits [OF assms])

lemma trim_digits:
  assumes "isDigits s"
  shows "trim s = s"
proof -
  from assms obtain c r where s: "s = c # r" and c: "spec_digit c"
    by (cases s) (auto simp: isDigits_def isDigit_spec)
  from assms have "spec_digit (last s)"
    by (simp add: isDigits_def isDigit_spec list_all_iff)
  then have l: "\<not> isWhiteSpace (last s)"
    by (auto simp: spec_digit_def isWhiteSpace_def)
  from c have "\<not> isWhiteSpace c"
    by (auto simp: spec_digit_def isWhiteSpace_def)
  then have "dropWhile isWhiteSpace s = s"
    by (simp add: s)
  moreover have "dropWhile isWhiteSpace (rev s) = rev s"
  proof (cases "rev s")
    case Nil
    then show ?thesis by simp
  next
    case (Cons a t)
    then have "hd (rev s) = a" by simp
    with l have "\<not> isWhiteSpace a" by (simp add: hd_rev)
    with Cons show ?thesis by simp
  qed
  ultimately show ?thesis
    by (simp add: trim_def)
qed

lemma nonDecimal_digits:
  assumes "isDigits s"
  shows "nonDecimal s = None"
proof (cases s)
  case Nil
  then show ?thesis by (simp add: nonDecimal_def)
next
  case (Cons z t)
  show ?thesis
  proof (cases t)
    case Nil
    with Cons show ?thesis by (simp add: nonDecimal_def)
  next
    case (Cons x u)
    with assms \<open>s = z # t\<close> have "spec_digit x"
      by (simp add: isDigits_def isDigit_spec)
    then have "x \<notin> set ''xXoObB''"
      by (auto simp: spec_digit_def)
    with Cons \<open>s = z # t\<close> show ?thesis
      by (cases u) (simp_all add: nonDecimal_def)
  qed
qed

text \<open>
  On a string of digits \<^verbatim>\<open>Number\<close> is the decimal value, as long as that is a
  double.
\<close>

lemma Number_digits:
  assumes "isDigits s" and "decimal s \<le> 2 ^ 53"
  shows "Number s = Fin (of_nat (decimal s))"
proof -
  from assms have all: "list_all isDigit s" and ne: "s \<noteq> []"
    by (simp_all add: isDigits_def)
  from assms obtain c r where s: "s = c # r" and c: "spec_digit c"
    by (cases s) (auto simp: isDigits_def isDigit_spec)
  from c have sign: "c \<noteq> CHR ''+''" "c \<noteq> CHR ''-''" "c \<noteq> CHR ''I''"
    by (auto simp: spec_digit_def)
  have e: "splitAt (\<lambda>c. c = CHR ''e'' \<or> c = CHR ''E'') s = (s, None)"
    by (rule splitAt_digits [OF all]) (auto simp: spec_digit_def)
  have p: "splitAt (\<lambda>c. c = CHR ''.'') s = (s, None)"
    by (rule splitAt_digits [OF all]) (auto simp: spec_digit_def)
  have r: "round64 (of_nat (decimal s)) = Fin (of_nat (decimal s))"
    using assms(2) by (simp add: round64_def)
  have "mantissa s = Some (of_nat (decimal s))"
    using assms by (simp add: mantissa_def p)
  moreover have "s \<noteq> ''Infinity''"
    using sign(3) by (simp add: s)
  ultimately have "unsignedDecimal s = Fin (of_nat (decimal s))"
    by (simp add: unsignedDecimal_def e r)
  moreover have "signedDecimal s = unsignedDecimal s"
    using sign(1,2) by (simp add: signedDecimal_def s)
  ultimately have "signedDecimal s = Fin (of_nat (decimal s))"
    by simp
  then show ?thesis
    using ne by (simp add: Number_def trim_digits [OF assms(1)] nonDecimal_digits [OF assms(1)])
qed

lemma spec_digit_value_le: "spec_digit_value c \<le> 10"
  using length_takeWhile_le [of "\<lambda>d. d \<noteq> c" "''0123456789''"]
  by (simp add: spec_digit_value_def)

text \<open>
  The pieces of a date that has passed the loop over \<^verbatim>\<open>combined\<close> are strings of
  digits, on which \<^verbatim>\<open>Number\<close> is \<open>decimal\<close>.
\<close>

lemma Number_date_pieces:
  assumes "length dateStr = 10"
    and "\<not> list_ex (\<lambda>c. c < CHR ''0'' \<or> c > CHR ''9'')
            (slice 0 4 dateStr @ slice 5 7 dateStr @ slice 8 10 dateStr)"
  shows "Number (slice 0 4 dateStr) = Fin (of_nat (decimal (slice 0 4 dateStr)))"
    and "Number (slice 5 7 dateStr) = Fin (of_nat (decimal (slice 5 7 dateStr)))"
    and "Number (slice 8 10 dateStr) = Fin (of_nat (decimal (slice 8 10 dateStr)))"
proof -
  from assms(1) obtain c0 c1 c2 c3 c4 c5 c6 c7 c8 c9 where
    s: "dateStr = [c0, c1, c2, c3, c4, c5, c6, c7, c8, c9]"
    by (rule length10)
  from assms(2) have d: "isDigits [c0, c1, c2, c3]" "isDigits [c5, c6]" "isDigits [c8, c9]"
    by (simp_all add: s slice_def isDigits_def isDigit_def not_less)
  then have "list_all spec_digit [c0, c1, c2, c3]" "list_all spec_digit [c5, c6]"
    "list_all spec_digit [c8, c9]"
    by (simp_all add: isDigits_def isDigit_spec)
  then have v: "decimal [c0, c1, c2, c3]
                = 1000 * spec_digit_value c0 + 100 * spec_digit_value c1
                  + 10 * spec_digit_value c2 + spec_digit_value c3"
    "decimal [c5, c6] = 10 * spec_digit_value c5 + spec_digit_value c6"
    "decimal [c8, c9] = 10 * spec_digit_value c8 + spec_digit_value c9"
    by (simp_all only: decimal4 decimal2)
  have "decimal [c0, c1, c2, c3] \<le> 11110" "decimal [c5, c6] \<le> 110" "decimal [c8, c9] \<le> 110"
    unfolding v
    using spec_digit_value_le [of c0] spec_digit_value_le [of c1] spec_digit_value_le [of c2]
      spec_digit_value_le [of c3] spec_digit_value_le [of c5] spec_digit_value_le [of c6]
      spec_digit_value_le [of c8] spec_digit_value_le [of c9]
    by linarith+
  then have b: "decimal [c0, c1, c2, c3] \<le> 2 ^ 53" "decimal [c5, c6] \<le> 2 ^ 53"
    "decimal [c8, c9] \<le> 2 ^ 53"
    by simp_all
  from Number_digits [OF d(1) b(1)] Number_digits [OF d(2) b(2)] Number_digits [OF d(3) b(3)]
  show "Number (slice 0 4 dateStr) = Fin (of_nat (decimal (slice 0 4 dateStr)))"
    and "Number (slice 5 7 dateStr) = Fin (of_nat (decimal (slice 5 7 dateStr)))"
    and "Number (slice 8 10 dateStr) = Fin (of_nat (decimal (slice 8 10 dateStr)))"
    by (simp_all add: s slice_def)
qed

end
